theory Spec2Isabelle
  imports Complex_Main
begin

chapter \<open>Code City: the layout, the view fit and the colours of the canvas visualizer\<close>

text \<open>
  A shallow embedding of \<open>canvas-visualizer.js\<close> (layout of packages and buildings, view fit,
  isometric projection, building colours, loading of a data file) and of the class
  \<open>GitMetadataColorManager\<close>, followed by the properties proved of them. The module-level
  variables are the fields of one state record that the functions take and return; the
  clock, the date parser and the JSON parser are parameters.
\<close>

section \<open>JavaScript numbers\<close>

text \<open>
  A JavaScript number is modelled as a real number or one of the three special values
  of IEEE arithmetic. Rounding is not modelled (every finite result is the exact real),
  and there is one zero: a division by zero takes the sign of the dividend alone.
  A property that the JSON input leaves out reads as \<open>undefined\<close>; such a field has an
  option type, \<open>None\<close> being \<open>undefined\<close>, and \<open>toNumber\<close> is the conversion that the
  arithmetic operators apply to it.
\<close>

datatype jsnum = Num real | PInf | NInf | NaN

fun toNumber :: "real option \<Rightarrow> jsnum" where
  "toNumber None = NaN"
| "toNumber (Some r) = Num r"

fun jsneg :: "jsnum \<Rightarrow> jsnum" where
  "jsneg (Num a) = Num (- a)"
| "jsneg PInf = NInf"
| "jsneg NInf = PInf"
| "jsneg NaN = NaN"

fun jsadd :: "jsnum \<Rightarrow> jsnum \<Rightarrow> jsnum" where
  "jsadd NaN b = NaN"
| "jsadd a NaN = NaN"
| "jsadd (Num a) (Num b) = Num (a + b)"
| "jsadd PInf NInf = NaN"
| "jsadd NInf PInf = NaN"
| "jsadd PInf b = PInf"
| "jsadd a PInf = PInf"
| "jsadd NInf b = NInf"
| "jsadd a NInf = NInf"

definition jssub :: "jsnum \<Rightarrow> jsnum \<Rightarrow> jsnum" where
  "jssub a b = jsadd a (jsneg b)"

fun inf_of_sign :: "real \<Rightarrow> jsnum" where
  "inf_of_sign a = (if a = 0 then NaN else if 0 < a then PInf else NInf)"

fun jsmul :: "jsnum \<Rightarrow> jsnum \<Rightarrow> jsnum" where
  "jsmul NaN b = NaN"
| "jsmul a NaN = NaN"
| "jsmul (Num a) (Num b) = Num (a * b)"
| "jsmul (Num a) PInf = inf_of_sign a"
| "jsmul (Num a) NInf = inf_of_sign (- a)"
| "jsmul PInf (Num b) = inf_of_sign b"
| "jsmul NInf (Num b) = inf_of_sign (- b)"
| "jsmul PInf PInf = PInf"
| "jsmul NInf NInf = PInf"
| "jsmul PInf NInf = NInf"
| "jsmul NInf PInf = NInf"

fun jsdiv :: "jsnum \<Rightarrow> jsnum \<Rightarrow> jsnum" where
  "jsdiv NaN b = NaN"
| "jsdiv a NaN = NaN"
| "jsdiv (Num a) (Num b) = (if b = 0 then inf_of_sign a else Num (a / b))"
| "jsdiv (Num a) PInf = Num 0"
| "jsdiv (Num a) NInf = Num 0"
| "jsdiv PInf (Num b) = (if 0 \<le> b then PInf else NInf)"
| "jsdiv NInf (Num b) = (if 0 \<le> b then NInf else PInf)"
| "jsdiv a b = NaN"

text \<open>\<open>Math.min\<close> and \<open>Math.max\<close> of two arguments: \<open>NaN\<close> as soon as one is.\<close>

fun jsmin :: "jsnum \<Rightarrow> jsnum \<Rightarrow> jsnum" where
  "jsmin NaN b = NaN"
| "jsmin a NaN = NaN"
| "jsmin NInf b = NInf"
| "jsmin a NInf = NInf"
| "jsmin PInf b = b"
| "jsmin a PInf = a"
| "jsmin (Num a) (Num b) = Num (min a b)"

fun jsmax :: "jsnum \<Rightarrow> jsnum \<Rightarrow> jsnum" where
  "jsmax NaN b = NaN"
| "jsmax a NaN = NaN"
| "jsmax PInf b = PInf"
| "jsmax a PInf = PInf"
| "jsmax NInf b = b"
| "jsmax a NInf = a"
| "jsmax (Num a) (Num b) = Num (max a b)"

fun jssqrt :: "jsnum \<Rightarrow> jsnum" where
  "jssqrt (Num a) = (if a < 0 then NaN else Num (sqrt a))"
| "jssqrt PInf = PInf"
| "jssqrt NInf = NaN"
| "jssqrt NaN = NaN"

fun jscos :: "jsnum \<Rightarrow> jsnum" where
  "jscos (Num a) = Num (cos a)"
| "jscos a = NaN"

fun jssin :: "jsnum \<Rightarrow> jsnum" where
  "jssin (Num a) = Num (sin a)"
| "jssin a = NaN"

fun jsfloor :: "jsnum \<Rightarrow> jsnum" where
  "jsfloor (Num a) = Num (of_int \<lfloor>a\<rfloor>)"
| "jsfloor a = a"

text \<open>The comparison \<open>a < b\<close>; every comparison with \<open>NaN\<close> is false.\<close>

fun jslt :: "jsnum \<Rightarrow> jsnum \<Rightarrow> bool" where
  "jslt NaN b = False"
| "jslt a NaN = False"
| "jslt (Num a) (Num b) = (a < b)"
| "jslt a NInf = False"
| "jslt PInf b = False"
| "jslt NInf b = True"
| "jslt a PInf = True"

definition jsgt :: "jsnum \<Rightarrow> jsnum \<Rightarrow> bool" where
  "jsgt a b = jslt b a"

text \<open>Strict equality \<open>a === b\<close> of two numbers: \<open>NaN\<close> equals nothing.\<close>

fun jseq :: "jsnum \<Rightarrow> jsnum \<Rightarrow> bool" where
  "jseq NaN b = False"
| "jseq a NaN = False"
| "jseq a b = (a = b)"

definition jsle :: "jsnum \<Rightarrow> jsnum \<Rightarrow> bool" where
  "jsle a b = (jslt a b \<or> jseq a b)"

definition jsge :: "jsnum \<Rightarrow> jsnum \<Rightarrow> bool" where
  "jsge a b = jsle b a"

text \<open>Truthiness of a number, and \<open>a || b\<close> on numbers.\<close>

fun truthy :: "jsnum \<Rightarrow> bool" where
  "truthy (Num a) = (a \<noteq> 0)"
| "truthy NaN = False"
| "truthy a = True"

definition jsor :: "jsnum \<Rightarrow> jsnum \<Rightarrow> jsnum" where
  "jsor a b = (if truthy a then a else b)"

section \<open>The git metadata colour manager\<close>

text \<open>
  The clock and the date parser are the browser's: \<open>Date.now()\<close> is the field \<open>now\<close> and
  \<open>new Date(s).getTime()\<close> is \<open>getTime s\<close> (\<open>NaN\<close> for a string that is no date).
\<close>

record env =
  now :: real
  getTime :: "string \<Rightarrow> jsnum"

record gitMetadata =
  commits :: "real option"
  authors :: "real option"
  lastModified :: "string option"

record GitMetadataColorManager =
  maxCommits :: jsnum
  maxAuthors :: jsnum
  oldestDate :: jsnum
  newestDate :: jsnum
  dateRange :: jsnum

definition new_GitMetadataColorManager ::
  "env \<Rightarrow> jsnum \<Rightarrow> jsnum \<Rightarrow> jsnum \<Rightarrow> jsnum \<Rightarrow> GitMetadataColorManager" where
  "new_GitMetadataColorManager e mc ma od nd =
     (let od' = jsor od (Num (now e)); nd' = jsor nd (Num (now e)) in
      \<lparr> maxCommits = jsor mc (Num 1),
        maxAuthors = jsor ma (Num 1),
        oldestDate = od',
        newestDate = nd',
        dateRange = jssub nd' od' \<rparr>)"

text \<open>
  The options object of \<open>getColorForBuilding\<close>: a property left out takes its default
  (\<open>useFrequency = true\<close>, \<open>useAge = true\<close>, \<open>colorBlindMode = false\<close>).
\<close>

record options =
  useFrequency :: "bool option"
  useAge :: "bool option"
  colorBlindMode :: "bool option"

record color =
  hue :: jsnum
  saturation :: jsnum
  lightness :: jsnum

fun default_to :: "bool \<Rightarrow> bool option \<Rightarrow> bool" where
  "default_to d None = d"
| "default_to d (Some b) = b"

definition frequency_hue :: "GitMetadataColorManager \<Rightarrow> bool \<Rightarrow> real \<Rightarrow> jsnum" where
  "frequency_hue m cb c =
     (let normalizedFrequency = jsmin (Num 1) (jsdiv (Num c) (maxCommits m)) in
      if cb then jssub (Num 270) (jsmul normalizedFrequency (Num 240))
      else jssub (Num 240) (jsmul normalizedFrequency (Num 240)))"

definition age_saturation :: "env \<Rightarrow> string \<Rightarrow> jsnum" where
  "age_saturation e lm =
     (let lastModifiedTime = getTime e lm;
          daysSinceChange = jsdiv (jssub (Num (now e)) lastModifiedTime) (Num (1000 * 60 * 60 * 24));
          maxAgeDays = Num 365;
          ageFactor = jsmax (Num 0) (jsmin (Num 1) (jssub (Num 1) (jsdiv daysSinceChange maxAgeDays)))
      in jsadd (Num 20) (jsmul ageFactor (Num 50)))"

definition getColorForBuilding ::
  "env \<Rightarrow> GitMetadataColorManager \<Rightarrow> gitMetadata option \<Rightarrow> options \<Rightarrow> color" where
  "getColorForBuilding e m gm opts =
     (let uf = default_to True (useFrequency opts);
          ua = default_to True (useAge opts);
          cb = default_to False (colorBlindMode opts);
          h = (case gm of
                 None \<Rightarrow> Num 200
               | Some g \<Rightarrow>
                   (case commits g of
                      None \<Rightarrow> Num 200
                    | Some c \<Rightarrow> if uf then frequency_hue m cb c else Num 200));
          s = (case gm of
                 None \<Rightarrow> Num 70
               | Some g \<Rightarrow>
                   (case lastModified g of
                      None \<Rightarrow> Num 70
                    | Some lm \<Rightarrow> if ua \<and> lm \<noteq> [] then age_saturation e lm else Num 70))
      in \<lparr> hue = h, saturation = s, lightness = Num 50 \<rparr>)"

definition getFrequencyLabel :: "jsnum \<Rightarrow> string" where
  "getFrequencyLabel c =
     (if jseq c (Num 0) then ''No changes''
      else if jseq c (Num 1) then ''Single change''
      else if jslt c (Num 5) then ''Low activity''
      else if jslt c (Num 15) then ''Moderate activity''
      else if jslt c (Num 50) then ''High activity''
      else ''Very high activity'')"

section \<open>Isometric projection\<close>

text \<open>The camera part of \<open>CONFIG\<close>, which zooming, panning and the view fit assign.\<close>

record camera =
  scale :: jsnum
  offsetX :: jsnum
  offsetY :: jsnum

record point =
  px :: jsnum
  py :: jsnum

definition isoAngle :: jsnum where
  "isoAngle = Num (pi / 6)"

definition toIsometric :: "camera \<Rightarrow> jsnum \<Rightarrow> jsnum \<Rightarrow> jsnum \<Rightarrow> point" where
  "toIsometric cam x y z =
     (let isoX = jsmul (jssub x y) (jscos isoAngle);
          isoY = jssub (jsmul (jsadd x y) (jssin isoAngle)) z
      in \<lparr> px = jsadd (jsmul isoX (scale cam)) (offsetX cam),
           py = jsadd (jsmul isoY (scale cam)) (offsetY cam) \<rparr>)"

section \<open>The input data and the placements\<close>

text \<open>
  The input format: a class has a name, \<open>linesOfCode\<close> and optional \<open>gitMetadata\<close>; a numeric
  field that the JSON leaves out is \<open>None\<close> (it reads as \<open>undefined\<close>).
\<close>

record cls =
  cls_name :: string
  linesOfCode :: "real option"
  cls_gitMetadata :: "gitMetadata option"

record pkg =
  pkg_name :: string
  pkg_classes :: "cls list"

record dataset =
  data_packages :: "pkg list"

record building =
  className :: string
  packageName :: string
  b_linesOfCode :: "real option"
  b_gitMetadata :: "gitMetadata option"
  b_x :: jsnum
  b_y :: jsnum
  b_z :: jsnum
  b_width :: jsnum
  b_depth :: jsnum
  b_height :: jsnum
  b_color :: string

record packageObj =
  p_name :: string
  p_x :: jsnum
  p_y :: jsnum
  p_width :: jsnum
  p_height :: jsnum
  p_depth :: jsnum
  p_z :: jsnum
  p_buildings :: "building list"

text \<open>The constants of \<open>CONFIG\<close> that nothing assigns.\<close>

abbreviation (input) "CONFIG_buildingWidth \<equiv> Num 30"
abbreviation (input) "CONFIG_buildingDepth \<equiv> Num 30"
abbreviation (input) "CONFIG_buildingSpacing \<equiv> Num 5"
abbreviation (input) "CONFIG_packagePadding \<equiv> Num 20"
abbreviation (input) "CONFIG_packageSpacing \<equiv> Num 0"
abbreviation (input) "CONFIG_locToHeightScale \<equiv> Num (8 / 10)"
abbreviation (input) "CONFIG_minBuildingHeight \<equiv> Num 10"
abbreviation (input) "CONFIG_minBuildingWidth \<equiv> Num 20"
abbreviation (input) "CONFIG_maxBuildingWidth \<equiv> Num 80"
abbreviation (input) "CONFIG_minBuildingDepth \<equiv> Num 20"
abbreviation (input) "CONFIG_maxBuildingDepth \<equiv> Num 80"
abbreviation (input) "CONFIG_buildingBaseColor \<equiv> ''#34495e''"
abbreviation (input) "CONFIG_buildingHighlightColor \<equiv> ''#3498db''"
abbreviation (input) "CONFIG_buildingSelectedColor \<equiv> ''#e74c3c''"

section \<open>The layout engine\<close>

definition calculatePackageMass :: "pkg \<Rightarrow> jsnum" where
  "calculatePackageMass p =
     foldl (\<lambda>sum c. jsadd sum (toNumber (linesOfCode c))) (Num 0) (pkg_classes p)"

record footprint =
  fp_width :: jsnum
  fp_depth :: jsnum

definition calculateBuildingFootprint :: "real option \<Rightarrow> footprint" where
  "calculateBuildingFootprint loc =
     (let scaleFactor = jssqrt (jsdiv (toNumber loc) (Num 50)) in
      \<lparr> fp_width = jsmin CONFIG_maxBuildingWidth
                      (jsmax CONFIG_minBuildingWidth (jsmul CONFIG_buildingWidth scaleFactor)),
        fp_depth = jsmin CONFIG_maxBuildingDepth
                      (jsmax CONFIG_minBuildingDepth (jsmul CONFIG_buildingDepth scaleFactor)) \<rparr>)"

text \<open>
  \<open>Array.prototype.sort\<close> with a comparator: a stable sort, a comparator result of \<open>NaN\<close>
  counting as zero. With a comparator that is no consistent order (one that returns \<open>NaN\<close>)
  the language leaves the result to the engine; the model is then the insertion order below.
\<close>

fun insert_by :: "('a \<Rightarrow> 'a \<Rightarrow> jsnum) \<Rightarrow> 'a \<Rightarrow> 'a list \<Rightarrow> 'a list" where
  "insert_by cmp x [] = [x]"
| "insert_by cmp x (y # ys) =
     (if jsgt (cmp x y) (Num 0) then y # insert_by cmp x ys else x # y # ys)"

definition js_sort :: "('a \<Rightarrow> 'a \<Rightarrow> jsnum) \<Rightarrow> 'a list \<Rightarrow> 'a list" where
  "js_sort cmp xs = foldr (insert_by cmp) xs []"

text \<open>\<open>Math.ceil(Math.sqrt(n))\<close> of an array length.\<close>

definition ceil_sqrt :: "nat \<Rightarrow> nat" where
  "ceil_sqrt n = nat \<lceil>sqrt (real n)\<rceil>"

record position =
  pos_x :: jsnum
  pos_y :: jsnum
  pos_class :: cls

record packageLayout =
  pl_width :: jsnum
  pl_height :: jsnum
  pl_depth :: jsnum
  pl_positions :: "position list"

text \<open>The variables of the loop of \<open>calculatePackageLayout\<close>.\<close>

record layoutVars =
  positions :: "position list"
  currentX :: jsnum
  currentY :: jsnum
  rowHeight :: jsnum
  maxWidth :: jsnum
  totalDepth :: jsnum

text \<open>
  The test \<open>index > 0 && index % maxBuildingsPerRow === 0\<close> that starts a new row; it is
  false for a zero divisor (the remainder is \<open>NaN\<close>).
\<close>

definition startsRow :: "nat \<Rightarrow> nat \<Rightarrow> bool" where
  "startsRow maxBuildingsPerRow index =
     (0 < index \<and> maxBuildingsPerRow \<noteq> 0 \<and> index mod maxBuildingsPerRow = 0)"

text \<open>One iteration, for the class at \<open>index\<close>.\<close>

definition placeClass :: "nat \<Rightarrow> nat \<Rightarrow> layoutVars \<Rightarrow> cls \<Rightarrow> layoutVars" where
  "placeClass maxBuildingsPerRow index v c =
     (let fp = calculateBuildingFootprint (linesOfCode c);
          wrap = startsRow maxBuildingsPerRow index;
          cx = (if wrap then CONFIG_packagePadding else currentX v);
          cy = (if wrap then jsadd (currentY v) (jsadd (rowHeight v) CONFIG_buildingSpacing)
                else currentY v);
          rh = (if wrap then Num 0 else rowHeight v);
          buildingEndX = jsadd cx (fp_width fp);
          buildingEndY = jsadd cy (fp_depth fp)
      in \<lparr> positions = positions v @ [\<lparr> pos_x = cx, pos_y = cy, pos_class = c \<rparr>],
           currentX = jsadd cx (jsadd (fp_width fp) CONFIG_buildingSpacing),
           currentY = cy,
           rowHeight = jsmax rh (fp_depth fp),
           maxWidth = jsmax (maxWidth v) buildingEndX,
           totalDepth = jsmax (totalDepth v) buildingEndY \<rparr>)"

fun placeClasses :: "nat \<Rightarrow> nat \<Rightarrow> layoutVars \<Rightarrow> cls list \<Rightarrow> layoutVars" where
  "placeClasses m index v [] = v"
| "placeClasses m index v (c # cs) = placeClasses m (Suc index) (placeClass m index v c) cs"

text \<open>The loop variables before the first iteration.\<close>

definition initVars :: layoutVars where
  "initVars = \<lparr> positions = [], currentX = CONFIG_packagePadding,
                currentY = CONFIG_packagePadding, rowHeight = Num 0, maxWidth = Num 0,
                totalDepth = CONFIG_packagePadding \<rparr>"

definition calculatePackageLayout :: "pkg \<Rightarrow> packageLayout" where
  "calculatePackageLayout p =
     (let sortedClasses =
            js_sort (\<lambda>a b. jssub (toNumber (linesOfCode b)) (toNumber (linesOfCode a)))
              (pkg_classes p);
          maxBuildingsPerRow = min 6 (ceil_sqrt (length (pkg_classes p)));
          v = placeClasses maxBuildingsPerRow 0 initVars sortedClasses
      in \<lparr> pl_width = jsadd (maxWidth v) CONFIG_packagePadding,
           pl_height = Num 5,
           pl_depth = jsadd (totalDepth v) CONFIG_packagePadding,
           pl_positions = positions v \<rparr>)"

section \<open>The state of the page\<close>

text \<open>
  The parsed input before its shape is known: a JSON value. An object is the list of its
  properties, each key once.
\<close>

datatype json = JNull | JBool bool | JNumber real | JString string
  | JArray "json list" | JObject "(string \<times> json) list"

record gitNormalization =
  gn_maxCommits :: jsnum
  gn_maxAuthors :: jsnum
  gn_oldestDate :: "jsnum option"
  gn_newestDate :: "jsnum option"

text \<open>
  The module-level variables and the parts of \<open>CONFIG\<close>, the canvas and the status element
  that the modelled functions read or assign. \<open>selectedBuilding\<close> and \<open>hoveredBuilding\<close> are
  references to building objects; \<open>drawBuilding\<close> only compares them with its argument, and
  the model takes the two results as arguments.
\<close>

record state =
  projectData :: "json option"
  buildings :: "building list"
  packages :: "packageObj list"
  gitColorManager :: "GitMetadataColorManager option"
  cfg_camera :: camera
  layoutStrategy :: string
  showGitData :: bool
  showFrequency :: bool
  showAge :: bool
  showRecentGlow :: bool
  cfg_colorBlindMode :: bool
  cfg_gitNormalization :: gitNormalization
  canvas_width :: real
  canvas_height :: real
  fileStatus_textContent :: string
  fileStatus_color :: string

section \<open>Laying out the packages\<close>

text \<open>The building that \<open>layoutPackagesInRegion\<close> creates for one position of a package.\<close>

definition makeBuilding :: "pkg \<Rightarrow> jsnum \<Rightarrow> jsnum \<Rightarrow> position \<Rightarrow> building" where
  "makeBuilding p packageX packageY pos =
     (let buildingHeight = jsmax CONFIG_minBuildingHeight
            (jsmul (toNumber (linesOfCode (pos_class pos))) CONFIG_locToHeightScale);
          fp = calculateBuildingFootprint (linesOfCode (pos_class pos))
      in \<lparr> className = cls_name (pos_class pos),
           packageName = pkg_name p,
           b_linesOfCode = linesOfCode (pos_class pos),
           b_gitMetadata = cls_gitMetadata (pos_class pos),
           b_x = jsadd packageX (pos_x pos),
           b_y = jsadd packageY (pos_y pos),
           b_z = Num 5,
           b_width = fp_width fp,
           b_depth = fp_depth fp,
           b_height = buildingHeight,
           b_color = CONFIG_buildingBaseColor \<rparr>)"

text \<open>The package platform with its buildings, at the origin the loop has reached.\<close>

definition makePackageObj :: "pkg \<Rightarrow> packageLayout \<Rightarrow> jsnum \<Rightarrow> jsnum \<Rightarrow> packageObj" where
  "makePackageObj p pkgLayout packageX packageY =
     \<lparr> p_name = pkg_name p,
       p_x = packageX,
       p_y = packageY,
       p_width = pl_width pkgLayout,
       p_height = pl_height pkgLayout,
       p_depth = pl_depth pkgLayout,
       p_z = Num 0,
       p_buildings = map (makeBuilding p packageX packageY) (pl_positions pkgLayout) \<rparr>"

record pkgWithMass =
  pwm_pkg :: pkg
  pwm_mass :: jsnum

record regionVars =
  packageX :: jsnum
  packageY :: jsnum
  maxRowHeight :: jsnum

text \<open>
  One iteration of the loop of \<open>layoutPackagesInRegion\<close>: the package at \<open>idx\<close> is laid out,
  wrapped to the next row when it does not fit, and pushed with its buildings.
\<close>

definition placePackage ::
  "jsnum \<Rightarrow> jsnum \<Rightarrow> nat \<Rightarrow> regionVars \<times> state \<Rightarrow> pkgWithMass \<Rightarrow> regionVars \<times> state" where
  "placePackage startX maxRowWidth idx rs pkgWithMass =
     (let rv = fst rs; st = snd rs;
          p = pwm_pkg pkgWithMass;
          pkgLayout = calculatePackageLayout p;
          wrap = (0 < idx
                  \<and> jsgt (jsadd (jssub (packageX rv) startX) (pl_width pkgLayout)) maxRowWidth);
          x = (if wrap then startX else packageX rv);
          y = (if wrap then jsadd (packageY rv) (jsadd (maxRowHeight rv) CONFIG_packageSpacing)
               else packageY rv);
          mrh = (if wrap then Num 0 else maxRowHeight rv);
          packageObj = makePackageObj p pkgLayout x y
      in (\<lparr> packageX = jsadd x (jsadd (pl_width pkgLayout) CONFIG_packageSpacing),
            packageY = y,
            maxRowHeight = jsmax mrh (pl_depth pkgLayout) \<rparr>,
          st\<lparr> buildings := buildings st @ p_buildings packageObj,
              packages := packages st @ [packageObj] \<rparr>))"

fun placePackages ::
  "jsnum \<Rightarrow> jsnum \<Rightarrow> nat \<Rightarrow> regionVars \<times> state \<Rightarrow> pkgWithMass list \<Rightarrow> regionVars \<times> state" where
  "placePackages startX maxRowWidth idx rs [] = rs"
| "placePackages startX maxRowWidth idx rs (p # ps) =
     placePackages startX maxRowWidth (Suc idx) (placePackage startX maxRowWidth idx rs p) ps"

definition layoutPackagesInRegion ::
  "state \<Rightarrow> pkgWithMass list \<Rightarrow> jsnum \<Rightarrow> jsnum \<Rightarrow> jsnum \<Rightarrow> state" where
  "layoutPackagesInRegion st packagesWithMass startX startY maxRowWidth =
     snd (placePackages startX maxRowWidth 0
            (\<lparr> packageX = startX, packageY = startY, maxRowHeight = Num 0 \<rparr>, st)
            packagesWithMass)"

text \<open>\<open>xs.slice(a, b)\<close> and \<open>xs.slice(a)\<close> for indices that are not negative.\<close>

definition slice :: "nat \<Rightarrow> nat \<Rightarrow> 'a list \<Rightarrow> 'a list" where
  "slice a b xs = take (b - a) (drop a xs)"

definition slice_from :: "nat \<Rightarrow> 'a list \<Rightarrow> 'a list" where
  "slice_from a xs = drop a xs"

text \<open>\<open>Math.ceil(n / 4)\<close> of an array length.\<close>

definition ceil_quarter :: "nat \<Rightarrow> nat" where
  "ceil_quarter n = nat \<lceil>real n / 4\<rceil>"

definition layoutPackagesQuadrant :: "state \<Rightarrow> pkgWithMass list \<Rightarrow> state" where
  "layoutPackagesQuadrant st packagesWithMass =
     (let quartileSize = ceil_quarter (length packagesWithMass);
          q1 = slice 0 quartileSize packagesWithMass;
          q2 = slice quartileSize (quartileSize * 2) packagesWithMass;
          q3 = slice (quartileSize * 2) (quartileSize * 3) packagesWithMass;
          q4 = slice_from (quartileSize * 3) packagesWithMass;
          packagesPerQuadrant = ceil_quarter (length packagesWithMass);
          packagesPerRowInQuadrant = ceil_sqrt packagesPerQuadrant;
          estimatedPackageSize = 150;
          maxRowWidth = real (packagesPerRowInQuadrant * estimatedPackageSize);
          st1 = layoutPackagesInRegion st q1 (Num maxRowWidth) (Num maxRowWidth) (Num maxRowWidth);
          st2 = layoutPackagesInRegion st1 q2 (Num (maxRowWidth * 2)) (Num 0) (Num maxRowWidth);
          st3 = layoutPackagesInRegion st2 q3 (Num 0) (Num (maxRowWidth * 2)) (Num maxRowWidth)
      in layoutPackagesInRegion st3 q4 (Num 0) (Num 0) (Num maxRowWidth))"

definition layoutPackagesGrid :: "state \<Rightarrow> pkgWithMass list \<Rightarrow> state" where
  "layoutPackagesGrid st packagesWithMass =
     (let packagesPerRow = ceil_sqrt (length packagesWithMass);
          estimatedPackageSize = 150;
          maxRowWidth = real (packagesPerRow * estimatedPackageSize)
      in layoutPackagesInRegion st packagesWithMass (Num 0) (Num 0) (Num maxRowWidth))"

section \<open>Git normalisation\<close>

record gitScan =
  scan_maxCommits :: jsnum
  scan_maxAuthors :: jsnum
  scan_oldestDate :: jsnum
  scan_newestDate :: jsnum
  hasGitData :: bool

text \<open>The body of the inner loop of \<open>calculateGitNormalization\<close>, for one class.\<close>

definition scanClass :: "env \<Rightarrow> gitScan \<Rightarrow> cls \<Rightarrow> gitScan" where
  "scanClass e a c =
     (case cls_gitMetadata c of
        None \<Rightarrow> a
      | Some g \<Rightarrow>
          (let a1 = a\<lparr> hasGitData := True \<rparr>;
               a2 = (case commits g of
                       None \<Rightarrow> a1
                     | Some k \<Rightarrow> a1\<lparr> scan_maxCommits := jsmax (scan_maxCommits a1) (Num k) \<rparr>);
               a3 = (case authors g of
                       None \<Rightarrow> a2
                     | Some k \<Rightarrow> a2\<lparr> scan_maxAuthors := jsmax (scan_maxAuthors a2) (Num k) \<rparr>)
           in (case lastModified g of
                 None \<Rightarrow> a3
               | Some lm \<Rightarrow>
                   if lm \<noteq> [] then
                     (let date = getTime e lm in
                      a3\<lparr> scan_oldestDate := jsmin (scan_oldestDate a3) date,
                          scan_newestDate := jsmax (scan_newestDate a3) date \<rparr>)
                   else a3)))"

definition scanData :: "env \<Rightarrow> dataset \<Rightarrow> gitScan" where
  "scanData e d =
     foldl (\<lambda>a p. foldl (scanClass e) a (pkg_classes p))
       \<lparr> scan_maxCommits = Num 0, scan_maxAuthors = Num 0, scan_oldestDate = PInf,
         scan_newestDate = Num 0, hasGitData = False \<rparr>
       (data_packages d)"

definition calculateGitNormalization :: "env \<Rightarrow> state \<Rightarrow> dataset \<Rightarrow> state" where
  "calculateGitNormalization e st d =
     (let a = scanData e d in
      if hasGitData a then
        (let mc = jsor (scan_maxCommits a) (Num 1);
             ma = jsor (scan_maxAuthors a) (Num 1);
             od = (if jseq (scan_oldestDate a) PInf then Num (now e) else scan_oldestDate a);
             nd = jsor (scan_newestDate a) (Num (now e))
         in st\<lparr> cfg_gitNormalization :=
                  \<lparr> gn_maxCommits = mc, gn_maxAuthors = ma,
                    gn_oldestDate = Some od, gn_newestDate = Some nd \<rparr>,
                gitColorManager := Some (new_GitMetadataColorManager e mc ma od nd) \<rparr>)
      else st)"

section \<open>The view fit\<close>

record bounds3D =
  minX :: jsnum
  maxX :: jsnum
  minY :: jsnum
  maxY :: jsnum
  minZ :: jsnum
  maxZ :: jsnum

text \<open>One box (a package platform or a building) added to the bounding box.\<close>

definition extendBounds ::
  "bounds3D \<Rightarrow> jsnum \<Rightarrow> jsnum \<Rightarrow> jsnum \<Rightarrow> jsnum \<Rightarrow> jsnum \<Rightarrow> jsnum \<Rightarrow> bounds3D" where
  "extendBounds b x y z w d h =
     \<lparr> minX = jsmin (minX b) x, maxX = jsmax (maxX b) (jsadd x w),
       minY = jsmin (minY b) y, maxY = jsmax (maxY b) (jsadd y d),
       minZ = jsmin (minZ b) z, maxZ = jsmax (maxZ b) (jsadd z h) \<rparr>"

definition cityBounds :: "state \<Rightarrow> bounds3D" where
  "cityBounds st =
     (let b0 = \<lparr> minX = PInf, maxX = NInf, minY = PInf, maxY = NInf, minZ = PInf, maxZ = NInf \<rparr>;
          b1 = foldl (\<lambda>b p. extendBounds b (p_x p) (p_y p) (p_z p) (p_width p) (p_depth p) (p_height p))
                 b0 (packages st)
      in foldl (\<lambda>b g. extendBounds b (b_x g) (b_y g) (b_z g) (b_width g) (b_depth g) (b_height g))
           b1 (buildings st))"

definition toIsoRaw :: "jsnum \<Rightarrow> jsnum \<Rightarrow> jsnum \<Rightarrow> point" where
  "toIsoRaw x y z =
     \<lparr> px = jsmul (jssub x y) (jscos isoAngle),
       py = jssub (jsmul (jsadd x y) (jssin isoAngle)) z \<rparr>"

definition boxCorners :: "bounds3D \<Rightarrow> point list" where
  "boxCorners b =
     [toIsoRaw (minX b) (minY b) (minZ b),
      toIsoRaw (maxX b) (minY b) (minZ b),
      toIsoRaw (maxX b) (maxY b) (minZ b),
      toIsoRaw (minX b) (maxY b) (minZ b),
      toIsoRaw (minX b) (minY b) (maxZ b),
      toIsoRaw (maxX b) (minY b) (maxZ b),
      toIsoRaw (maxX b) (maxY b) (maxZ b),
      toIsoRaw (minX b) (maxY b) (maxZ b)]"

text \<open>\<open>Math.min(...xs)\<close> and \<open>Math.max(...xs)\<close>, also the running minimum from \<open>Infinity\<close>.\<close>

definition Math_min :: "jsnum list \<Rightarrow> jsnum" where
  "Math_min xs = foldl jsmin PInf xs"

definition Math_max :: "jsnum list \<Rightarrow> jsnum" where
  "Math_max xs = foldl jsmax NInf xs"

text \<open>
  \<open>calculateViewTransform\<close>; the centre of the bounding box in space, which the function
  computes and does not use, is left out.
\<close>

definition calculateViewTransform :: "state \<Rightarrow> state" where
  "calculateViewTransform st =
     (if buildings st = [] \<and> packages st = [] then st
      else
        (let corners = boxCorners (cityBounds st);
             screenWidth = jssub (Math_max (map px corners)) (Math_min (map px corners));
             screenHeight = jssub (Math_max (map py corners)) (Math_min (map py corners));
             padding = Num 50;
             availableWidth = jssub (Num (canvas_width st)) (jsmul padding (Num 2));
             availableHeight = jssub (Num (canvas_height st)) (jsmul padding (Num 2));
             scaleX = jsdiv availableWidth screenWidth;
             scaleY = jsdiv availableHeight screenHeight;
             newScale = jsmin (jsmin scaleX scaleY) (Num (3 / 2));
             scaledCorners = map (\<lambda>c. \<lparr> px = jsmul (px c) newScale, py = jsmul (py c) newScale \<rparr>)
                               corners;
             screenCenterX = jsdiv (jsadd (Math_min (map px scaledCorners))
                                          (Math_max (map px scaledCorners))) (Num 2);
             screenCenterY = jsdiv (jsadd (Math_min (map py scaledCorners))
                                          (Math_max (map py scaledCorners))) (Num 2);
             canvasCenterX = jsdiv (Num (canvas_width st)) (Num 2);
             canvasCenterY = jsdiv (Num (canvas_height st)) (Num 2)
         in st\<lparr> cfg_camera := \<lparr> scale = newScale,
                                  offsetX = jssub canvasCenterX screenCenterX,
                                  offsetY = jssub canvasCenterY screenCenterY \<rparr> \<rparr>))"

section \<open>Processing a dataset\<close>

text \<open>
  \<open>processData\<close>: the placements are reset and laid out again, then the git normalisation
  and the view fit run. \<open>showGitControlsIfNeeded\<close> only shows two page elements.
\<close>

definition processData :: "env \<Rightarrow> state \<Rightarrow> dataset \<Rightarrow> state" where
  "processData e st d =
     (let st0 = st\<lparr> buildings := [], packages := [] \<rparr>;
          packagesWithMass =
            js_sort (\<lambda>a b. jssub (pwm_mass b) (pwm_mass a))
              (map (\<lambda>p. \<lparr> pwm_pkg = p, pwm_mass = calculatePackageMass p \<rparr>) (data_packages d));
          st1 = (if layoutStrategy st0 = ''grid'' then layoutPackagesGrid st0 packagesWithMass
                 else layoutPackagesQuadrant st0 packagesWithMass);
          st2 = calculateGitNormalization e st1 d
      in calculateViewTransform st2)"

section \<open>Building colours\<close>

text \<open>
  A fill style. The template strings \<open>rgb(r, g, b)\<close> and \<open>hsl(h, s%, l%)\<close> are kept as their
  three numbers; a colour of \<open>CONFIG\<close> is its string.
\<close>

datatype css_color = ColorString string | Rgb jsnum jsnum jsnum | Hsl jsnum jsnum jsnum

definition hexDigit :: "char \<Rightarrow> nat option" where
  "hexDigit c =
     (let n = (of_char c :: nat) in
      if 48 \<le> n \<and> n \<le> 57 then Some (n - 48)
      else if 97 \<le> n \<and> n \<le> 102 then Some (n - 87)
      else if 65 \<le> n \<and> n \<le> 70 then Some (n - 55)
      else None)"

text \<open>
  \<open>parseInt(s, 16)\<close> on a string without leading white space, sign or \<open>0x\<close>: the value of
  the longest prefix of hexadecimal digits, \<open>NaN\<close> when there is none.
\<close>

definition parseInt16 :: "string \<Rightarrow> jsnum" where
  "parseInt16 s =
     (let ds = takeWhile (\<lambda>c. hexDigit c \<noteq> None) s in
      if ds = [] then NaN
      else Num (real (foldl (\<lambda>a c. 16 * a + the (hexDigit c)) 0 ds)))"

text \<open>\<open>color.replace('#', '')\<close>: the first \<open>#\<close> is removed.\<close>

fun remove_hash :: "string \<Rightarrow> string" where
  "remove_hash [] = []"
| "remove_hash (c # cs) = (if c = CHR ''#'' then cs else c # remove_hash cs)"

definition substr :: "string \<Rightarrow> nat \<Rightarrow> nat \<Rightarrow> string" where
  "substr s start len = take len (drop start s)"

definition lighten :: "string \<Rightarrow> real \<Rightarrow> css_color" where
  "lighten col factor =
     (let hex = remove_hash col;
          r = jsmin (Num 255) (jsmul (parseInt16 (substr hex 0 2)) (Num factor));
          g = jsmin (Num 255) (jsmul (parseInt16 (substr hex 2 2)) (Num factor));
          b = jsmin (Num 255) (jsmul (parseInt16 (substr hex 4 2)) (Num factor))
      in Rgb (jsfloor r) (jsfloor g) (jsfloor b))"

definition darken :: "string \<Rightarrow> real \<Rightarrow> css_color" where
  "darken col factor = lighten col factor"

record shades =
  sh_top :: css_color
  sh_right :: css_color
  sh_left :: css_color

definition getShades :: "color \<Rightarrow> shades" where
  "getShades baseColor =
     \<lparr> sh_top = Hsl (hue baseColor) (saturation baseColor) (jsadd (lightness baseColor) (Num 20)),
       sh_right = Hsl (hue baseColor) (saturation baseColor) (lightness baseColor),
       sh_left = Hsl (hue baseColor) (saturation baseColor) (jssub (lightness baseColor) (Num 20)) \<rparr>"

text \<open>
  The colours \<open>drawBuilding\<close> chooses: \<open>shades\<close> stays \<open>null\<close> (\<open>None\<close>) unless the building is
  neither selected nor hovered, carries git metadata, a colour manager exists and
  \<open>CONFIG.showGitData\<close> is set.
\<close>

definition buildingShades :: "env \<Rightarrow> state \<Rightarrow> bool \<Rightarrow> bool \<Rightarrow> building \<Rightarrow> shades option" where
  "buildingShades e st isSelected isHovered b =
     (if isSelected then None
      else if isHovered then None
      else (case gitColorManager st of
              None \<Rightarrow> None
            | Some m \<Rightarrow>
                if b_gitMetadata b \<noteq> None \<and> showGitData st then
                  Some (getShades (getColorForBuilding e m (b_gitMetadata b)
                          \<lparr> useFrequency = Some (showFrequency st),
                            useAge = Some (showAge st),
                            colorBlindMode = Some (cfg_colorBlindMode st) \<rparr>))
                else None))"

definition buildingBaseColor :: "bool \<Rightarrow> bool \<Rightarrow> building \<Rightarrow> string" where
  "buildingBaseColor isSelected isHovered b =
     (if isSelected then CONFIG_buildingSelectedColor
      else if isHovered then CONFIG_buildingHighlightColor
      else b_color b)"

text \<open>The fill styles of the three faces that \<open>drawBuilding\<close> paints.\<close>

definition drawBuilding_fills :: "env \<Rightarrow> state \<Rightarrow> bool \<Rightarrow> bool \<Rightarrow> building \<Rightarrow> shades" where
  "drawBuilding_fills e st isSelected isHovered b =
     (let baseColor = buildingBaseColor isSelected isHovered b in
      case buildingShades e st isSelected isHovered b of
        Some sh \<Rightarrow> \<lparr> sh_top = sh_top sh, sh_right = sh_right sh, sh_left = sh_left sh \<rparr>
      | None \<Rightarrow> \<lparr> sh_top = lighten baseColor (12 / 10),
                  sh_right = ColorString baseColor,
                  sh_left = darken baseColor (7 / 10) \<rparr>)"

section \<open>Loading a file\<close>

text \<open>
  \<open>JSON.parse\<close> is the engine's: it returns the parsed value or throws a \<open>SyntaxError\<close>
  (\<open>Inl\<close> of its message). Reading a property of \<open>null\<close> throws a \<open>TypeError\<close> whose message
  is the engine's too.
\<close>

record engine =
  JSON_parse :: "string \<Rightarrow> string + json"
  nullReadMessage :: string

text \<open>
  \<open>data.packages\<close>: \<open>Inl\<close> is the thrown \<open>TypeError\<close>, \<open>Inr None\<close> is \<open>undefined\<close>. A number, a
  string, a boolean and an array have no property of that name.
\<close>

fun read_packages :: "engine \<Rightarrow> json \<Rightarrow> string + json option" where
  "read_packages g JNull = Inl (nullReadMessage g)"
| "read_packages g (JObject kvs) = Inr (map_of kvs ''packages'')"
| "read_packages g v = Inr None"

fun json_truthy :: "json \<Rightarrow> bool" where
  "json_truthy JNull = False"
| "json_truthy (JBool b) = b"
| "json_truthy (JNumber r) = (r \<noteq> 0)"
| "json_truthy (JString s) = (s \<noteq> [])"
| "json_truthy v = True"

fun Array_isArray :: "json \<Rightarrow> bool" where
  "Array_isArray (JArray xs) = True"
| "Array_isArray v = False"

text \<open>
  The typed reading of a parsed value that follows the input format: the names are
  strings, the numeric fields numbers or left out, \<open>gitMetadata\<close> an object or left out.
  \<open>None\<close> for a value of another shape.
\<close>

fun as_string :: "json option \<Rightarrow> string option" where
  "as_string (Some (JString s)) = Some s"
| "as_string v = None"

fun as_number :: "json option \<Rightarrow> real option option" where
  "as_number None = Some None"
| "as_number (Some (JNumber r)) = Some (Some r)"
| "as_number v = None"

fun as_opt_string :: "json option \<Rightarrow> string option option" where
  "as_opt_string None = Some None"
| "as_opt_string (Some (JString s)) = Some (Some s)"
| "as_opt_string v = None"

fun all_some :: "'a option list \<Rightarrow> 'a list option" where
  "all_some [] = Some []"
| "all_some (None # xs) = None"
| "all_some (Some x # xs) = (case all_some xs of None \<Rightarrow> None | Some ys \<Rightarrow> Some (x # ys))"

fun as_gitMetadata :: "json option \<Rightarrow> gitMetadata option option" where
  "as_gitMetadata None = Some None"
| "as_gitMetadata (Some (JObject kvs)) =
     (case (as_number (map_of kvs ''commits''), as_number (map_of kvs ''authors''),
            as_opt_string (map_of kvs ''lastModified'')) of
        (Some c, Some a, Some l) \<Rightarrow> Some (Some \<lparr> commits = c, authors = a, lastModified = l \<rparr>)
      | _ \<Rightarrow> None)"
| "as_gitMetadata v = None"

fun as_cls :: "json \<Rightarrow> cls option" where
  "as_cls (JObject kvs) =
     (case (as_string (map_of kvs ''name''), as_number (map_of kvs ''linesOfCode''),
            as_gitMetadata (map_of kvs ''gitMetadata'')) of
        (Some n, Some l, Some g) \<Rightarrow>
          Some \<lparr> cls_name = n, linesOfCode = l, cls_gitMetadata = g \<rparr>
      | _ \<Rightarrow> None)"
| "as_cls v = None"

fun as_pkg :: "json \<Rightarrow> pkg option" where
  "as_pkg (JObject kvs) =
     (case (as_string (map_of kvs ''name''), map_of kvs ''classes'') of
        (Some n, Some (JArray cs)) \<Rightarrow>
          (case all_some (map as_cls cs) of
             None \<Rightarrow> None
           | Some cs' \<Rightarrow> Some \<lparr> pkg_name = n, pkg_classes = cs' \<rparr>)
      | _ \<Rightarrow> None)"
| "as_pkg v = None"

fun as_dataset :: "json \<Rightarrow> dataset option" where
  "as_dataset (JObject kvs) =
     (case map_of kvs ''packages'' of
        Some (JArray ps) \<Rightarrow>
          (case all_some (map as_pkg ps) of
             None \<Rightarrow> None
           | Some ps' \<Rightarrow> Some \<lparr> data_packages = ps' \<rparr>)
      | _ \<Rightarrow> None)"
| "as_dataset v = None"

text \<open>The \<open>catch\<close> block of the \<open>onload\<close> handler: the message goes to the status element.\<close>

definition report_error :: "state \<Rightarrow> string \<Rightarrow> state" where
  "report_error st message =
     st\<lparr> fileStatus_textContent := [CHR 0xE2, CHR 0x9C, CHR 0x97] @ '' Error: '' @ message,
         fileStatus_color := ''#e74c3c'' \<rparr>"

text \<open>
  The \<open>onload\<close> handler of the file reader, for the text of the file \<open>fileName\<close>. The result is
  \<open>None\<close> when the parsed value passes the check of its \<open>packages\<close> array and then departs
  from the input format in another place: the model does not cover that input.
  \<open>renderCity\<close> and \<open>displayProjectStats\<close> paint the canvas and write the statistics panel.
\<close>

definition reader_onload :: "engine \<Rightarrow> env \<Rightarrow> state \<Rightarrow> string \<Rightarrow> string \<Rightarrow> state option" where
  "reader_onload g e st fileName result =
     (case JSON_parse g result of
        Inl message \<Rightarrow> Some (report_error st message)
      | Inr data \<Rightarrow>
          (case read_packages g data of
             Inl message \<Rightarrow> Some (report_error st message)
           | Inr pk \<Rightarrow>
               if (case pk of None \<Rightarrow> True | Some v \<Rightarrow> \<not> json_truthy v \<or> \<not> Array_isArray v)
               then Some (report_error st ''Invalid data format: missing packages array'')
               else
                 (case as_dataset data of
                    None \<Rightarrow> None
                  | Some d \<Rightarrow>
                      (let st1 = st\<lparr> projectData := Some data \<rparr>;
                           st2 = processData e st1 d
                       in Some (st2\<lparr> fileStatus_textContent :=
                                       [CHR 0xE2, CHR 0x9C, CHR 0x93] @ '' Successfully loaded ''
                                         @ fileName,
                                     fileStatus_color := ''#27ae60'' \<rparr>)))))"

section \<open>Predicates of the statements and the proofs\<close>

text \<open>
  Two footprints overlap when their open rectangles meet; a footprint lies inside a
  package when the package's rectangle contains it. Both are stated with the comparisons
  of the language, which are false on \<open>NaN\<close>.
\<close>

definition footprints_overlap :: "building \<Rightarrow> building \<Rightarrow> bool" where
  "footprints_overlap a b =
     (jslt (b_x a) (jsadd (b_x b) (b_width b)) \<and> jslt (b_x b) (jsadd (b_x a) (b_width a))
      \<and> jslt (b_y a) (jsadd (b_y b) (b_depth b)) \<and> jslt (b_y b) (jsadd (b_y a) (b_depth a)))"

definition footprint_inside :: "packageObj \<Rightarrow> building \<Rightarrow> bool" where
  "footprint_inside po b =
     (jsle (p_x po) (b_x b) \<and> jsle (jsadd (b_x b) (b_width b)) (jsadd (p_x po) (p_width po))
      \<and> jsle (p_y po) (b_y b) \<and> jsle (jsadd (b_y b) (b_depth b)) (jsadd (p_y po) (p_depth po)))"

definition endX :: "position \<Rightarrow> jsnum" where
  "endX pos = jsadd (pos_x pos) (fp_width (calculateBuildingFootprint (linesOfCode (pos_class pos))))"

definition endY :: "position \<Rightarrow> jsnum" where
  "endY pos = jsadd (pos_y pos) (fp_depth (calculateBuildingFootprint (linesOfCode (pos_class pos))))"

text \<open>The invariant of the loop of \<open>calculatePackageLayout\<close>, on real numbers.\<close>

fun num_val :: "jsnum \<Rightarrow> real" where
  "num_val (Num a) = a"
| "num_val a = 0"

definition separated :: "real \<times> real \<times> real \<times> real \<Rightarrow> real \<times> real \<times> real \<times> real \<Rightarrow> bool" where
  "separated r s =
     (case r of (x1, y1, w1, d1) \<Rightarrow> case s of (x2, y2, w2, d2) \<Rightarrow>
        x1 + w1 \<le> x2 \<or> x2 + w2 \<le> x1 \<or> y1 + d1 \<le> y2 \<or> y2 + d2 \<le> y1)"

definition pos_rect :: "position \<Rightarrow> real \<times> real \<times> real \<times> real" where
  "pos_rect pos =
     (let fp = calculateBuildingFootprint (linesOfCode (pos_class pos)) in
      (num_val (pos_x pos), num_val (pos_y pos), num_val (fp_width fp), num_val (fp_depth fp)))"

definition pos_ok :: "real \<Rightarrow> real \<Rightarrow> real \<Rightarrow> real \<Rightarrow> real \<Rightarrow> position \<Rightarrow> bool" where
  "pos_ok cx cy rh mw td pos =
     (\<exists>x y w d. pos_x pos = Num x \<and> pos_y pos = Num y
        \<and> calculateBuildingFootprint (linesOfCode (pos_class pos))
            = \<lparr> fp_width = Num w, fp_depth = Num d \<rparr>
        \<and> 20 \<le> x \<and> 20 \<le> y \<and> 0 < w \<and> 0 < d
        \<and> x + w \<le> mw \<and> y + d \<le> td
        \<and> ((y = cy \<and> x + w + 5 \<le> cx \<and> d \<le> rh) \<or> y + d + 5 \<le> cy))"

definition layout_inv :: "layoutVars \<Rightarrow> bool" where
  "layout_inv v =
     (\<exists>cx cy rh mw td. currentX v = Num cx \<and> currentY v = Num cy \<and> rowHeight v = Num rh
        \<and> maxWidth v = Num mw \<and> totalDepth v = Num td
        \<and> 20 \<le> cx \<and> 20 \<le> cy \<and> 0 \<le> rh \<and> 0 \<le> mw \<and> 20 \<le> td
        \<and> (\<forall>pos \<in> set (positions v). pos_ok cx cy rh mw td pos)
        \<and> sorted_wrt (\<lambda>a b. separated (pos_rect a) (pos_rect b)) (positions v))"

definition extent_inv :: "layoutVars \<Rightarrow> bool" where
  "extent_inv v =
     (maxWidth v = foldl jsmax (Num 0) (map endX (positions v))
      \<and> totalDepth v = foldl jsmax CONFIG_packagePadding (map endY (positions v)))"

text \<open>
  The commit and author counts of a class are integers; a class carries no usable date
  (no \<open>lastModified\<close>, or an empty one); the invariant of the scan of
  \<open>calculateGitNormalization\<close>.
\<close>

definition int_counts :: "cls \<Rightarrow> bool" where
  "int_counts c =
     (case cls_gitMetadata c of
        None \<Rightarrow> True
      | Some g \<Rightarrow> (case commits g of None \<Rightarrow> True | Some k \<Rightarrow> k \<in> \<int>)
                \<and> (case authors g of None \<Rightarrow> True | Some k \<Rightarrow> k \<in> \<int>))"

definition scan_ok :: "gitScan \<Rightarrow> bool" where
  "scan_ok a =
     (\<exists>k j. scan_maxCommits a = Num k \<and> k \<in> \<int> \<and> 0 \<le> k
          \<and> scan_maxAuthors a = Num j \<and> j \<in> \<int> \<and> 0 \<le> j)"

definition no_date :: "cls \<Rightarrow> bool" where
  "no_date c =
     (case cls_gitMetadata c of
        None \<Rightarrow> True
      | Some g \<Rightarrow> lastModified g = None \<or> lastModified g = Some [])"

text \<open>Two states with the same placements.\<close>

definition same_city :: "state \<Rightarrow> state \<Rightarrow> bool" where
  "same_city st st' = (buildings st = buildings st' \<and> packages st = packages st')"

text \<open>What the scenario reads of a building: class name, height, metadata and colour.\<close>

definition cls_view :: "building \<Rightarrow> string \<times> jsnum \<times> gitMetadata option \<times> string" where
  "cls_view b = (className b, b_height b, b_gitMetadata b, b_color b)"

text \<open>
  The hue (in degrees) and the saturation (in percent) that a fill style denotes in the HSL
  colour model: those of an \<open>hsl\<close> style as they stand, those of an \<open>rgb\<close> style or of a
  hexadecimal colour by the usual conversion.
\<close>

definition rgb_hue_saturation :: "real \<Rightarrow> real \<Rightarrow> real \<Rightarrow> real \<times> real" where
  "rgb_hue_saturation r g b =
     (let mx = max r (max g b); mn = min r (min g b); d = mx - mn in
      if d = 0 then (0, 0)
      else (60 * (if mx = r then (let h = (g - b) / d in if h < 0 then h + 6 else h)
                  else if mx = g then (b - r) / d + 2
                  else (r - g) / d + 4),
            100 * d / (255 - \<bar>mx + mn - 255\<bar>)))"

fun fill_hue_saturation :: "css_color \<Rightarrow> (real \<times> real) option" where
  "fill_hue_saturation (Hsl (Num h) (Num s) l) = Some (h, s)"
| "fill_hue_saturation (Rgb (Num r) (Num g) (Num b)) = Some (rgb_hue_saturation r g b)"
| "fill_hue_saturation (ColorString c) =
     (case (parseInt16 (substr (remove_hash c) 0 2), parseInt16 (substr (remove_hash c) 2 2),
            parseInt16 (substr (remove_hash c) 4 2)) of
        (Num r, Num g, Num b) \<Rightarrow> Some (rgb_hue_saturation r g b)
      | _ \<Rightarrow> None)"
| "fill_hue_saturation c = None"

text \<open>The fills that \<open>drawBuilding\<close> derives from \<open>CONFIG.buildingBaseColor\<close>.\<close>

definition base_fills :: shades where
  "base_fills = \<lparr> sh_top = Rgb (Num 62) (Num 87) (Num 112),
                  sh_right = ColorString ''#34495e'',
                  sh_left = Rgb (Num 36) (Num 51) (Num 65) \<rparr>"

text \<open>
  The boxes of a city (the package platforms, then the buildings), the bounding box of
  finite boxes on real numbers, its eight corners, and the width and height of the
  rectangle that the projected corners span on the screen.
\<close>

record cbox =
  box_x :: jsnum
  box_y :: jsnum
  box_z :: jsnum
  box_w :: jsnum
  box_d :: jsnum
  box_h :: jsnum

definition package_box :: "packageObj \<Rightarrow> cbox" where
  "package_box p = \<lparr> box_x = p_x p, box_y = p_y p, box_z = p_z p,
                     box_w = p_width p, box_d = p_depth p, box_h = p_height p \<rparr>"

definition building_box :: "building \<Rightarrow> cbox" where
  "building_box b = \<lparr> box_x = b_x b, box_y = b_y b, box_z = b_z b,
                      box_w = b_width b, box_d = b_depth b, box_h = b_height b \<rparr>"

definition city_boxes :: "state \<Rightarrow> cbox list" where
  "city_boxes st = map package_box (packages st) @ map building_box (buildings st)"

definition box_ok :: "cbox \<Rightarrow> bool" where
  "box_ok q =
     (\<exists>x y z w d h. q = \<lparr> box_x = Num x, box_y = Num y, box_z = Num z,
                           box_w = Num w, box_d = Num d, box_h = Num h \<rparr>
        \<and> 0 < w \<and> 0 < d \<and> 0 < h)"

record rbounds =
  lo_x :: real
  hi_x :: real
  lo_y :: real
  hi_y :: real
  lo_z :: real
  hi_z :: real

definition city_bbox :: "cbox list \<Rightarrow> rbounds" where
  "city_bbox qs =
     \<lparr> lo_x = Min (set (map (\<lambda>q. num_val (box_x q)) qs)),
       hi_x = Max (set (map (\<lambda>q. num_val (box_x q) + num_val (box_w q)) qs)),
       lo_y = Min (set (map (\<lambda>q. num_val (box_y q)) qs)),
       hi_y = Max (set (map (\<lambda>q. num_val (box_y q) + num_val (box_d q)) qs)),
       lo_z = Min (set (map (\<lambda>q. num_val (box_z q)) qs)),
       hi_z = Max (set (map (\<lambda>q. num_val (box_z q) + num_val (box_h q)) qs)) \<rparr>"

definition bbox_corners :: "rbounds \<Rightarrow> (real \<times> real \<times> real) list" where
  "bbox_corners b =
     [(lo_x b, lo_y b, lo_z b), (hi_x b, lo_y b, lo_z b), (hi_x b, hi_y b, lo_z b),
      (lo_x b, hi_y b, lo_z b), (lo_x b, lo_y b, hi_z b), (hi_x b, lo_y b, hi_z b),
      (hi_x b, hi_y b, hi_z b), (lo_x b, hi_y b, hi_z b)]"

definition iso_x :: "real \<times> real \<times> real \<Rightarrow> real" where
  "iso_x c = (case c of (x, y, z) \<Rightarrow> (x - y) * cos (pi / 6))"

definition iso_y :: "real \<times> real \<times> real \<Rightarrow> real" where
  "iso_y c = (case c of (x, y, z) \<Rightarrow> (x + y) * sin (pi / 6) - z)"

definition projected_width :: "rbounds \<Rightarrow> real" where
  "projected_width b =
     Max (set (map iso_x (bbox_corners b))) - Min (set (map iso_x (bbox_corners b)))"

definition projected_height :: "rbounds \<Rightarrow> real" where
  "projected_height b =
     Max (set (map iso_y (bbox_corners b))) - Min (set (map iso_y (bbox_corners b)))"

definition finite_num :: "jsnum \<Rightarrow> bool" where
  "finite_num a = (case a of Num r \<Rightarrow> True | _ \<Rightarrow> False)"

text \<open>
  The classes of a package have a \<open>linesOfCode\<close> that is a number and not negative; a
  package object is the layout of such a package at a finite origin; a city consists of
  finite boxes of positive size and of such package objects; the invariant of the loop of
  \<open>layoutPackagesInRegion\<close>.
\<close>

definition classes_ok :: "pkg \<Rightarrow> bool" where
  "classes_ok p = (\<forall>c \<in> set (pkg_classes p). \<exists>r. linesOfCode c = Some r \<and> 0 \<le> r)"

definition placed :: "packageObj \<Rightarrow> bool" where
  "placed po =
     (\<exists>p X Y. classes_ok p \<and> po = makePackageObj p (calculatePackageLayout p) (Num X) (Num Y))"

definition city_ok :: "state \<Rightarrow> bool" where
  "city_ok st =
     ((\<forall>q \<in> set (city_boxes st). box_ok q) \<and> (\<forall>po \<in> set (packages st). placed po))"

definition region_ok :: "regionVars \<times> state \<Rightarrow> bool" where
  "region_ok rs =
     ((\<exists>x y h. fst rs = \<lparr> packageX = Num x, packageY = Num y, maxRowHeight = Num h \<rparr>)
      \<and> city_ok (snd rs))"

section \<open>Concrete inputs\<close>

text \<open>A package with one very large class among very small ones.\<close>

definition outlier_pkg :: pkg where
  "outlier_pkg =
     \<lparr> pkg_name = ''a.b'',
       pkg_classes =
         [\<lparr> cls_name = ''Tiny1'', linesOfCode = Some 1, cls_gitMetadata = None \<rparr>,
          \<lparr> cls_name = ''Huge'', linesOfCode = Some 100000, cls_gitMetadata = None \<rparr>,
          \<lparr> cls_name = ''Empty'', linesOfCode = Some 0, cls_gitMetadata = None \<rparr>] \<rparr>"

text \<open>A clock at the epoch and a date parser that rejects every string.\<close>

definition env0 :: env where
  "env0 = \<lparr> now = 0, getTime = (\<lambda>s. NaN) \<rparr>"

text \<open>A class without \<open>linesOfCode\<close>, and the same class with \<open>linesOfCode\<close> 0.\<close>

definition cls_missing :: cls where
  "cls_missing = \<lparr> cls_name = ''X'', linesOfCode = None, cls_gitMetadata = None \<rparr>"

definition cls_zero :: cls where
  "cls_zero = \<lparr> cls_name = ''X'', linesOfCode = Some 0, cls_gitMetadata = None \<rparr>"

text \<open>
  The variables as the script initialises them, for a canvas of the given size; the status
  element starts empty.
\<close>

definition initialState :: "real \<Rightarrow> real \<Rightarrow> state" where
  "initialState w h =
     \<lparr> projectData = None, buildings = [], packages = [], gitColorManager = None,
       cfg_camera = \<lparr> scale = Num 1, offsetX = Num 100, offsetY = Num 100 \<rparr>,
       layoutStrategy = ''quadrant'', showGitData = True, showFrequency = True,
       showAge = True, showRecentGlow = True, cfg_colorBlindMode = False,
       cfg_gitNormalization = \<lparr> gn_maxCommits = Num 0, gn_maxAuthors = Num 0,
                                 gn_oldestDate = None, gn_newestDate = None \<rparr>,
       canvas_width = w, canvas_height = h,
       fileStatus_textContent = [], fileStatus_color = [] \<rparr>"

text \<open>A dataset whose only class has git metadata with no commits.\<close>

definition zero_commits_data :: dataset where
  "zero_commits_data =
     \<lparr> data_packages =
         [\<lparr> pkg_name = ''a.b'',
            pkg_classes =
              [\<lparr> cls_name = ''X'', linesOfCode = Some 150,
                 cls_gitMetadata = Some \<lparr> commits = Some 0, authors = None, lastModified = None \<rparr> \<rparr>] \<rparr>] \<rparr>"

text \<open>The dataset of the scenario: one package with the classes X (150 lines) and Y (85 lines).\<close>

definition scenario_pkg :: pkg where
  "scenario_pkg =
     \<lparr> pkg_name = ''a.b'',
       pkg_classes = [\<lparr> cls_name = ''X'', linesOfCode = Some 150, cls_gitMetadata = None \<rparr>,
                      \<lparr> cls_name = ''Y'', linesOfCode = Some 85, cls_gitMetadata = None \<rparr>] \<rparr>"

definition scenario_data :: dataset where
  "scenario_data = \<lparr> data_packages = [scenario_pkg] \<rparr>"

text \<open>
  An engine that parses two texts and rejects the others; its message for a property read
  of \<open>null\<close> is the start of the one that V8 gives.
\<close>

definition engine0 :: engine where
  "engine0 =
     \<lparr> JSON_parse = (\<lambda>s. if s = ''{}'' then Inr (JObject [])
                          else if s = ''null'' then Inr JNull
                          else Inl ''Unexpected token''),
       nullReadMessage = ''Cannot read properties of null'' \<rparr>"

text \<open>
  The city of a dataset of one package without classes, as the quadrant layout places it (a
  platform of 20 by 40 at 150, 150), on a canvas of 800 by 600.
\<close>

definition one_platform :: state where
  "one_platform =
     (initialState 800 600)\<lparr> packages :=
        [\<lparr> p_name = ''a.b'', p_x = Num 150, p_y = Num 150, p_width = Num 20, p_height = Num 5,
           p_depth = Num 40, p_z = Num 0, p_buildings = [] \<rparr>] \<rparr>"

section \<open>Properties\<close>

subsection \<open>The package layout\<close>

lemma fp_numeric:
  assumes "0 \<le> r"
  shows "\<exists>w d. calculateBuildingFootprint (Some r) = \<lparr> fp_width = Num w, fp_depth = Num d \<rparr>
           \<and> 20 \<le> w \<and> w \<le> 80 \<and> 20 \<le> d \<and> d \<le> 80"
  using assms by (simp add: calculateBuildingFootprint_def Let_def)

lemma pos_okE:
  assumes "pos_ok cx cy rh mw td pos"
  obtains x y w d where "pos_x pos = Num x" "pos_y pos = Num y"
    "calculateBuildingFootprint (linesOfCode (pos_class pos))
       = \<lparr> fp_width = Num w, fp_depth = Num d \<rparr>"
    "20 \<le> x" "20 \<le> y" "0 < w" "0 < d" "x + w \<le> mw" "y + d \<le> td"
    "(y = cy \<and> x + w + 5 \<le> cx \<and> d \<le> rh) \<or> y + d + 5 \<le> cy"
  using assms unfolding pos_ok_def by blast

lemma pos_okI:
  assumes "pos_x pos = Num x" "pos_y pos = Num y"
    "calculateBuildingFootprint (linesOfCode (pos_class pos))
       = \<lparr> fp_width = Num w, fp_depth = Num d \<rparr>"
    "20 \<le> x" "20 \<le> y" "0 < w" "0 < d" "x + w \<le> mw" "y + d \<le> td"
    "(y = cy \<and> x + w + 5 \<le> cx \<and> d \<le> rh) \<or> y + d + 5 \<le> cy"
  shows "pos_ok cx cy rh mw td pos"
  unfolding pos_ok_def using assms by blast

lemma pos_ok_same_row:
  assumes "pos_ok cx cy rh mw td pos" "cx \<le> cx'" "rh \<le> rh'" "mw \<le> mw'" "td \<le> td'"
  shows "pos_ok cx' cy rh' mw' td' pos"
proof -
  from assms(1) obtain x y w d where h: "pos_x pos = Num x" "pos_y pos = Num y"
    "calculateBuildingFootprint (linesOfCode (pos_class pos))
       = \<lparr> fp_width = Num w, fp_depth = Num d \<rparr>"
    "20 \<le> x" "20 \<le> y" "0 < w" "0 < d" "x + w \<le> mw" "y + d \<le> td"
    "(y = cy \<and> x + w + 5 \<le> cx \<and> d \<le> rh) \<or> y + d + 5 \<le> cy"
    by (rule pos_okE)
  show ?thesis
    by (rule pos_okI [OF h(1-7)]) (use h assms in auto)
qed

lemma pos_ok_next_row:
  assumes "pos_ok cx cy rh mw td pos" "cy + rh + 5 \<le> cy'" "mw \<le> mw'" "td \<le> td'" "0 \<le> rh"
  shows "pos_ok cx' cy' rh' mw' td' pos"
proof -
  from assms(1) obtain x y w d where h: "pos_x pos = Num x" "pos_y pos = Num y"
    "calculateBuildingFootprint (linesOfCode (pos_class pos))
       = \<lparr> fp_width = Num w, fp_depth = Num d \<rparr>"
    "20 \<le> x" "20 \<le> y" "0 < w" "0 < d" "x + w \<le> mw" "y + d \<le> td"
    "(y = cy \<and> x + w + 5 \<le> cx \<and> d \<le> rh) \<or> y + d + 5 \<le> cy"
    by (rule pos_okE)
  show ?thesis
    by (rule pos_okI [OF h(1-7)]) (use h assms in auto)
qed

lemma pos_ok_separated_same_row:
  assumes "pos_ok cx cy rh mw td pos"
    and "pos_x q = Num cx" "pos_y q = Num cy"
  shows "separated (pos_rect pos) (pos_rect q)"
proof -
  from assms(1) obtain x y w d where h: "pos_x pos = Num x" "pos_y pos = Num y"
    "calculateBuildingFootprint (linesOfCode (pos_class pos))
       = \<lparr> fp_width = Num w, fp_depth = Num d \<rparr>"
    "20 \<le> x" "20 \<le> y" "0 < w" "0 < d" "x + w \<le> mw" "y + d \<le> td"
    "(y = cy \<and> x + w + 5 \<le> cx \<and> d \<le> rh) \<or> y + d + 5 \<le> cy"
    by (rule pos_okE)
  show ?thesis
    using h assms(2,3) by (auto simp: separated_def pos_rect_def Let_def)
qed

lemma pos_ok_separated_next_row:
  assumes "pos_ok cx cy rh mw td pos"
    and "pos_y q = Num cy'" "cy + rh + 5 \<le> cy'" "0 \<le> rh"
  shows "separated (pos_rect pos) (pos_rect q)"
proof -
  from assms(1) obtain x y w d where h: "pos_x pos = Num x" "pos_y pos = Num y"
    "calculateBuildingFootprint (linesOfCode (pos_class pos))
       = \<lparr> fp_width = Num w, fp_depth = Num d \<rparr>"
    "20 \<le> x" "20 \<le> y" "0 < w" "0 < d" "x + w \<le> mw" "y + d \<le> td"
    "(y = cy \<and> x + w + 5 \<le> cx \<and> d \<le> rh) \<or> y + d + 5 \<le> cy"
    by (rule pos_okE)
  show ?thesis
    using h assms(2,3,4) by (auto simp: separated_def pos_rect_def Let_def)
qed

lemma layout_inv_step:
  assumes inv: "layout_inv v" and loc: "linesOfCode c = Some r" "0 \<le> r"
  shows "layout_inv (placeClass m i v c)"
proof -
  from inv obtain cx cy rh mw td where v:
    "currentX v = Num cx" "currentY v = Num cy" "rowHeight v = Num rh"
    "maxWidth v = Num mw" "totalDepth v = Num td" "20 \<le> cx" "20 \<le> cy" "0 \<le> rh"
    "0 \<le> mw" "20 \<le> td"
    and ok: "\<forall>pos \<in> set (positions v). pos_ok cx cy rh mw td pos"
    and sep: "sorted_wrt (\<lambda>a b. separated (pos_rect a) (pos_rect b)) (positions v)"
    unfolding layout_inv_def by blast
  from fp_numeric [OF loc(2)] obtain w d where fp:
    "calculateBuildingFootprint (Some r) = \<lparr> fp_width = Num w, fp_depth = Num d \<rparr>"
    "20 \<le> w" "w \<le> 80" "20 \<le> d" "d \<le> 80" by blast
  let ?wrap = "startsRow m i"
  show ?thesis
  proof (cases ?wrap)
    case True
    let ?cy = "cy + (rh + 5)"
    let ?q = "\<lparr> pos_x = Num 20, pos_y = Num ?cy, pos_class = c \<rparr>"
    have new: "pos_ok (20 + (w + 5)) ?cy (max 0 d) (max mw (20 + w)) (max td (?cy + d)) ?q"
      unfolding pos_ok_def using fp v loc by simp
    have old: "pos_ok (20 + (w + 5)) ?cy (max 0 d) (max mw (20 + w)) (max td (?cy + d)) pos"
      if "pos \<in> set (positions v)" for pos
      by (rule pos_ok_next_row [of cx cy rh mw td]) (use ok that v in auto)
    have seps: "separated (pos_rect pos) (pos_rect ?q)" if "pos \<in> set (positions v)" for pos
      by (rule pos_ok_separated_next_row [of cx cy rh mw td pos ?q ?cy]) (use ok that v in auto)
    have lb: "0 \<le> max mw (20 + w)" "20 \<le> max td (?cy + d)"
      using v by (simp_all add: le_max_iff_disj)
    show ?thesis
      unfolding layout_inv_def
      using True v fp loc new old seps sep lb
      by (simp add: placeClass_def Let_def sorted_wrt_append)
  next
    case False
    let ?q = "\<lparr> pos_x = Num cx, pos_y = Num cy, pos_class = c \<rparr>"
    have new: "pos_ok (cx + (w + 5)) cy (max rh d) (max mw (cx + w)) (max td (cy + d)) ?q"
      unfolding pos_ok_def using fp v loc by simp
    have old: "pos_ok (cx + (w + 5)) cy (max rh d) (max mw (cx + w)) (max td (cy + d)) pos"
      if "pos \<in> set (positions v)" for pos
      by (rule pos_ok_same_row [of cx cy rh mw td]) (use ok that fp in auto)
    have seps: "separated (pos_rect pos) (pos_rect ?q)" if "pos \<in> set (positions v)" for pos
      by (rule pos_ok_separated_same_row [of cx cy rh mw td pos ?q]) (use ok that in auto)
    have lb: "0 \<le> max mw (cx + w)" "20 \<le> max td (cy + d)"
      using v by (simp_all add: le_max_iff_disj)
    show ?thesis
      unfolding layout_inv_def
      using False v fp loc new old seps sep lb
      by (simp add: placeClass_def Let_def sorted_wrt_append)
  qed
qed

lemma layout_inv_placeClasses:
  assumes "layout_inv v" and "\<forall>c \<in> set cs. \<exists>r. linesOfCode c = Some r \<and> 0 \<le> r"
  shows "layout_inv (placeClasses m i v cs)"
  using assms
proof (induction cs arbitrary: v i)
  case Nil
  then show ?case by simp
next
  case (Cons c cs)
  from Cons.prems(2) obtain r where "linesOfCode c = Some r" "0 \<le> r" by auto
  with Cons.prems(1) have "layout_inv (placeClass m i v c)" by (rule layout_inv_step)
  with Cons show ?case by simp
qed

lemma positions_placeClass:
  "map pos_class (positions (placeClass m i v c)) = map pos_class (positions v) @ [c]"
  by (simp add: placeClass_def Let_def)

lemma positions_placeClasses:
  "map pos_class (positions (placeClasses m i v cs)) = map pos_class (positions v) @ cs"
  by (induction cs arbitrary: v i) (simp_all add: positions_placeClass)

lemma extent_inv_step: "extent_inv v \<Longrightarrow> extent_inv (placeClass m i v c)"
  by (simp add: extent_inv_def placeClass_def Let_def endX_def endY_def)

lemma extent_inv_placeClasses: "extent_inv v \<Longrightarrow> extent_inv (placeClasses m i v cs)"
  by (induction cs arbitrary: v i) (simp_all add: extent_inv_step)

lemma set_insert_by: "set (insert_by cmp x ys) = insert x (set ys)"
  by (induction ys) auto

lemma length_insert_by: "length (insert_by cmp x ys) = Suc (length ys)"
  by (induction ys) auto

lemma set_js_sort: "set (js_sort cmp xs) = set xs"
  unfolding js_sort_def by (induction xs) (simp_all add: set_insert_by)

lemma length_js_sort: "length (js_sort cmp xs) = length xs"
  unfolding js_sort_def by (induction xs) (simp_all add: length_insert_by)

lemma layout_inv_init: "layout_inv initVars"
  by (simp add: layout_inv_def initVars_def)

lemma extent_inv_init: "extent_inv initVars"
  by (simp add: extent_inv_def initVars_def)

lemma building_of_pos_ok:
  assumes "pos_ok cx cy rh mw td pos"
  shows "footprint_inside (makePackageObj p \<lparr> pl_width = Num (mw + 20), pl_height = h, pl_depth = Num (td + 20), pl_positions = ps \<rparr> (Num X) (Num Y))
           (makeBuilding p (Num X) (Num Y) pos)
         \<and> jslt (Num 0) (b_width (makeBuilding p (Num X) (Num Y) pos))
         \<and> jslt (Num 0) (b_depth (makeBuilding p (Num X) (Num Y) pos))"
proof -
  from assms obtain x y w d where h: "pos_x pos = Num x" "pos_y pos = Num y"
    "calculateBuildingFootprint (linesOfCode (pos_class pos))
       = \<lparr> fp_width = Num w, fp_depth = Num d \<rparr>"
    "20 \<le> x" "20 \<le> y" "0 < w" "0 < d" "x + w \<le> mw" "y + d \<le> td"
    by (rule pos_okE)
  then show ?thesis
    by (simp add: footprint_inside_def makePackageObj_def makeBuilding_def Let_def jsle_def)
qed

lemma separated_no_overlap:
  assumes "pos_ok cx cy rh mw td a" "pos_ok cx cy rh mw td b"
    and "separated (pos_rect a) (pos_rect b)"
  shows "\<not> footprints_overlap (makeBuilding p (Num X) (Num Y) a) (makeBuilding p (Num X) (Num Y) b)"
proof -
  from assms(1) obtain x y w d where h: "pos_x a = Num x" "pos_y a = Num y"
    "calculateBuildingFootprint (linesOfCode (pos_class a))
       = \<lparr> fp_width = Num w, fp_depth = Num d \<rparr>"
    by (rule pos_okE)
  from assms(2) obtain x' y' w' d' where h': "pos_x b = Num x'" "pos_y b = Num y'"
    "calculateBuildingFootprint (linesOfCode (pos_class b))
       = \<lparr> fp_width = Num w', fp_depth = Num d' \<rparr>"
    by (rule pos_okE)
  from assms(3) h h' show ?thesis
    by (auto simp: footprints_overlap_def makeBuilding_def Let_def separated_def pos_rect_def)
qed

text \<open>
  C1: for every package whose classes have a \<open>linesOfCode\<close> that is a number and not
  negative, at every package origin: \<open>calculatePackageLayout\<close> places one building per
  class, no two buildings of the package have overlapping footprints, every building has
  a positive footprint that lies inside the package's footprint, and the package's width
  and depth are the largest building end (from 0 and from the padding) plus the padding.
\<close>

theorem calculatePackageLayout_no_overlap:
  assumes "\<forall>c \<in> set (pkg_classes p). \<exists>r. linesOfCode c = Some r \<and> 0 \<le> r"
  shows "let L = calculatePackageLayout p;
             po = makePackageObj p L (Num X) (Num Y);
             bs = p_buildings po
         in length bs = length (pkg_classes p)
            \<and> (\<forall>i j. i < j \<and> j < length bs \<longrightarrow> \<not> footprints_overlap (bs ! i) (bs ! j))
            \<and> (\<forall>b \<in> set bs. footprint_inside po b
                   \<and> jslt (Num 0) (b_width b) \<and> jslt (Num 0) (b_depth b))
            \<and> pl_width L = jsadd (foldl jsmax (Num 0) (map endX (pl_positions L))) CONFIG_packagePadding
            \<and> pl_depth L = jsadd (foldl jsmax CONFIG_packagePadding (map endY (pl_positions L))) CONFIG_packagePadding"
proof -
  define cs where "cs = js_sort (\<lambda>a b. jssub (toNumber (linesOfCode b)) (toNumber (linesOfCode a))) (pkg_classes p)"
  define m where "m = min 6 (ceil_sqrt (length (pkg_classes p)))"
  define v where "v = placeClasses m 0 initVars cs"
  have L: "calculatePackageLayout p = \<lparr> pl_width = jsadd (maxWidth v) CONFIG_packagePadding,
           pl_height = Num 5, pl_depth = jsadd (totalDepth v) CONFIG_packagePadding,
           pl_positions = positions v \<rparr>"
    by (simp add: calculatePackageLayout_def Let_def v_def m_def cs_def initVars_def)
  have cs_ok: "\<forall>c \<in> set cs. \<exists>r. linesOfCode c = Some r \<and> 0 \<le> r"
    using assms by (simp add: cs_def set_js_sort)
  have inv: "layout_inv v"
    unfolding v_def by (rule layout_inv_placeClasses [OF layout_inv_init cs_ok])
  have ext: "extent_inv v"
    unfolding v_def by (rule extent_inv_placeClasses [OF extent_inv_init])
  from inv obtain cx cy rh mw td where nv:
    "maxWidth v = Num mw" "totalDepth v = Num td"
    and ok: "\<forall>pos \<in> set (positions v). pos_ok cx cy rh mw td pos"
    and sep: "sorted_wrt (\<lambda>a b. separated (pos_rect a) (pos_rect b)) (positions v)"
    unfolding layout_inv_def by blast
  have len: "length (positions v) = length (pkg_classes p)"
    using positions_placeClasses [of m 0 initVars cs, THEN arg_cong, of length]
    by (simp add: v_def initVars_def cs_def length_js_sort)
  have no: "\<not> footprints_overlap (makeBuilding p (Num X) (Num Y) (positions v ! i))
                (makeBuilding p (Num X) (Num Y) (positions v ! j))"
    if "i < j" "j < length (positions v)" for i j
  proof -
    have "separated (pos_rect (positions v ! i)) (pos_rect (positions v ! j))"
      using sep that by (simp add: sorted_wrt_iff_nth_less)
    moreover have "pos_ok cx cy rh mw td (positions v ! i)" "pos_ok cx cy rh mw td (positions v ! j)"
      using ok that by simp_all
    ultimately show ?thesis by (rule separated_no_overlap [rotated 2])
  qed
  have inside: "footprint_inside (makePackageObj p (calculatePackageLayout p) (Num X) (Num Y)) (makeBuilding p (Num X) (Num Y) pos)
         \<and> jslt (Num 0) (b_width (makeBuilding p (Num X) (Num Y) pos))
         \<and> jslt (Num 0) (b_depth (makeBuilding p (Num X) (Num Y) pos))"
    if "pos \<in> set (positions v)" for pos
    using building_of_pos_ok [of cx cy rh mw td pos p "Num 5" "positions v" X Y] ok that
    by (simp add: L nv)
  show ?thesis
    using len no inside ext
    by (simp add: Let_def L makePackageObj_def extent_inv_def)
qed


theorem calculatePackageLayout_no_overlap_witness:
  "length (p_buildings (makePackageObj outlier_pkg (calculatePackageLayout outlier_pkg) (Num 0) (Num 0))) = 3
   \<and> \<not> footprints_overlap
        (p_buildings (makePackageObj outlier_pkg (calculatePackageLayout outlier_pkg) (Num 0) (Num 0)) ! 0)
        (p_buildings (makePackageObj outlier_pkg (calculatePackageLayout outlier_pkg) (Num 0) (Num 0)) ! 1)
   \<and> \<not> footprints_overlap
        (p_buildings (makePackageObj outlier_pkg (calculatePackageLayout outlier_pkg) (Num 0) (Num 0)) ! 0)
        (p_buildings (makePackageObj outlier_pkg (calculatePackageLayout outlier_pkg) (Num 0) (Num 0)) ! 2)
   \<and> \<not> footprints_overlap
        (p_buildings (makePackageObj outlier_pkg (calculatePackageLayout outlier_pkg) (Num 0) (Num 0)) ! 1)
        (p_buildings (makePackageObj outlier_pkg (calculatePackageLayout outlier_pkg) (Num 0) (Num 0)) ! 2)
   \<and> footprint_inside (makePackageObj outlier_pkg (calculatePackageLayout outlier_pkg) (Num 0) (Num 0))
        (p_buildings (makePackageObj outlier_pkg (calculatePackageLayout outlier_pkg) (Num 0) (Num 0)) ! 1)"
proof -
  have h: "\<forall>c \<in> set (pkg_classes outlier_pkg). \<exists>r. linesOfCode c = Some r \<and> 0 \<le> r"
    by (simp add: outlier_pkg_def)
  let ?po = "makePackageObj outlier_pkg (calculatePackageLayout outlier_pkg) (Num 0) (Num 0)"
  from calculatePackageLayout_no_overlap [OF h, of 0 0]
  have len: "length (p_buildings ?po) = length (pkg_classes outlier_pkg)"
    and no: "\<And>i j. i < j \<Longrightarrow> j < length (p_buildings ?po)
               \<Longrightarrow> \<not> footprints_overlap (p_buildings ?po ! i) (p_buildings ?po ! j)"
    and ins: "\<And>b. b \<in> set (p_buildings ?po) \<Longrightarrow> footprint_inside ?po b"
    by (simp_all add: Let_def)
  have len3: "length (p_buildings ?po) = 3"
    using len by (simp add: outlier_pkg_def)
  have "p_buildings ?po ! 1 \<in> set (p_buildings ?po)"
    using len3 by simp
  then show ?thesis
    using len3 no [of 0 1] no [of 0 2] no [of 1 2] ins by simp
qed

subsection \<open>A class without lines of code\<close>

lemma mass_fold_NaN: "foldl (\<lambda>sum c. jsadd sum (toNumber (linesOfCode c))) NaN cs = NaN"
  by (induction cs) simp_all

lemma jsadd_NaN_right: "jsadd a NaN = NaN"
  by (cases a) simp_all

lemma mass_fold_missing:
  assumes "c \<in> set cs" "linesOfCode c = None"
  shows "foldl (\<lambda>sum c. jsadd sum (toNumber (linesOfCode c))) a cs = NaN"
  using assms
proof (induction cs arbitrary: a)
  case Nil
  then show ?case by simp
next
  case (Cons x xs)
  show ?case
  proof (cases "x = c")
    case True
    then show ?thesis using Cons.prems by (simp add: jsadd_NaN_right mass_fold_NaN)
  next
    case False
    then show ?thesis using Cons by simp
  qed
qed

text \<open>
  C2, as the code has it: a missing \<open>linesOfCode\<close> is not coerced to 0 and nothing throws.
  The mass of every package that holds such a class is \<open>NaN\<close>, and the height of the
  building made for it is \<open>NaN\<close>, where a \<open>linesOfCode\<close> of 0 gives the minimum height 10.
\<close>

theorem missing_linesOfCode_not_coerced:
  assumes "linesOfCode c = None"
  shows "(c \<in> set (pkg_classes p) \<longrightarrow> calculatePackageMass p = NaN)
       \<and> b_height (makeBuilding q x y \<lparr> pos_x = u, pos_y = v, pos_class = c \<rparr>) = NaN
       \<and> b_height (makeBuilding q x y \<lparr> pos_x = u, pos_y = v, pos_class = c\<lparr> linesOfCode := Some 0 \<rparr> \<rparr>)
           = Num 10"
  using assms
  by (auto simp: calculatePackageMass_def mass_fold_missing makeBuilding_def Let_def)

theorem missing_linesOfCode_not_coerced_witness:
  "calculatePackageMass \<lparr> pkg_name = ''a'', pkg_classes = [cls_zero, cls_missing] \<rparr> = NaN
   \<and> b_height (makeBuilding \<lparr> pkg_name = ''a'', pkg_classes = [cls_zero, cls_missing] \<rparr> (Num 0) (Num 0)
        \<lparr> pos_x = Num 20, pos_y = Num 20, pos_class = cls_missing \<rparr>) = NaN"
  using missing_linesOfCode_not_coerced [of cls_missing
      "\<lparr> pkg_name = ''a'', pkg_classes = [cls_zero, cls_missing] \<rparr>"
      "\<lparr> pkg_name = ''a'', pkg_classes = [cls_zero, cls_missing] \<rparr>" "Num 0" "Num 0" "Num 20" "Num 20"]
  by (simp add: cls_missing_def)

text \<open>
  Coercion to 0 fails on the code: a package of one class without \<open>linesOfCode\<close> has mass \<open>NaN\<close>
  and a building of height \<open>NaN\<close>; with \<open>linesOfCode\<close> 0 the mass is 0 and the height 10.
\<close>

theorem missing_linesOfCode_counterexample:
  "calculatePackageMass \<lparr> pkg_name = ''a'', pkg_classes = [cls_missing] \<rparr> = NaN
   \<and> calculatePackageMass \<lparr> pkg_name = ''a'', pkg_classes = [cls_zero] \<rparr> = Num 0
   \<and> calculatePackageMass \<lparr> pkg_name = ''a'', pkg_classes = [cls_missing] \<rparr>
       \<noteq> calculatePackageMass \<lparr> pkg_name = ''a'', pkg_classes = [cls_zero] \<rparr>
   \<and> b_height (makeBuilding \<lparr> pkg_name = ''a'', pkg_classes = [cls_missing] \<rparr> (Num 0) (Num 0)
        \<lparr> pos_x = Num 20, pos_y = Num 20, pos_class = cls_missing \<rparr>) = NaN
   \<and> b_height (makeBuilding \<lparr> pkg_name = ''a'', pkg_classes = [cls_zero] \<rparr> (Num 0) (Num 0)
        \<lparr> pos_x = Num 20, pos_y = Num 20, pos_class = cls_zero \<rparr>) = Num 10"
  by (simp add: calculatePackageMass_def makeBuilding_def cls_missing_def cls_zero_def Let_def)

subsection \<open>The view fit\<close>

lemma foldl_jsmin_Num: "foldl jsmin (Num a) (map Num vs) = Num (fold min vs a)"
  by (induction vs arbitrary: a) (simp_all add: min.commute)

lemma foldl_jsmax_Num: "foldl jsmax (Num a) (map Num vs) = Num (fold max vs a)"
  by (induction vs arbitrary: a) (simp_all add: max.commute)

lemma Math_min_Num:
  assumes "vs \<noteq> []"
  shows "Math_min (map Num vs) = Num (Min (set vs))"
proof -
  from assms obtain a list where vs: "vs = a # list" by (cases vs) auto
  have "Math_min (map Num vs) = Num (fold min list a)"
    by (simp add: vs Math_min_def foldl_jsmin_Num)
  also have "fold min list a = Min (set (a # list))"
    by (rule Min.set_eq_fold [symmetric])
  finally show ?thesis by (simp only: vs)
qed

lemma Math_max_Num:
  assumes "vs \<noteq> []"
  shows "Math_max (map Num vs) = Num (Max (set vs))"
proof -
  from assms obtain a list where vs: "vs = a # list" by (cases vs) auto
  have "Math_max (map Num vs) = Num (fold max list a)"
    by (simp add: vs Math_max_def foldl_jsmax_Num)
  also have "fold max list a = Max (set (a # list))"
    by (rule Max.set_eq_fold [symmetric])
  finally show ?thesis by (simp only: vs)
qed

lemma Math_min_comp: "qs \<noteq> [] \<Longrightarrow> Math_min (map (Num \<circ> f) qs) = Num (Min (f ` set qs))"
  using Math_min_Num [of "map f qs"] by simp

lemma Math_max_comp: "qs \<noteq> [] \<Longrightarrow> Math_max (map (Num \<circ> f) qs) = Num (Max (f ` set qs))"
  using Math_max_Num [of "map f qs"] by simp

lemma fold_extendBounds:
  "foldl (\<lambda>b q. extendBounds b (fx q) (fy q) (fz q) (fw q) (fd q) (fh q)) b qs
     = \<lparr> minX = foldl jsmin (minX b) (map fx qs),
         maxX = foldl jsmax (maxX b) (map (\<lambda>q. jsadd (fx q) (fw q)) qs),
         minY = foldl jsmin (minY b) (map fy qs),
         maxY = foldl jsmax (maxY b) (map (\<lambda>q. jsadd (fy q) (fd q)) qs),
         minZ = foldl jsmin (minZ b) (map fz qs),
         maxZ = foldl jsmax (maxZ b) (map (\<lambda>q. jsadd (fz q) (fh q)) qs) \<rparr>"
  by (induction qs arbitrary: b) (simp_all add: extendBounds_def)

lemma cityBounds_boxes:
  "cityBounds st
     = \<lparr> minX = Math_min (map box_x (city_boxes st)),
         maxX = Math_max (map (\<lambda>q. jsadd (box_x q) (box_w q)) (city_boxes st)),
         minY = Math_min (map box_y (city_boxes st)),
         maxY = Math_max (map (\<lambda>q. jsadd (box_y q) (box_d q)) (city_boxes st)),
         minZ = Math_min (map box_z (city_boxes st)),
         maxZ = Math_max (map (\<lambda>q. jsadd (box_z q) (box_h q)) (city_boxes st)) \<rparr>"
  by (simp add: cityBounds_def Let_def fold_extendBounds city_boxes_def package_box_def building_box_def Math_min_def Math_max_def
      comp_def)

lemma box_ok_maps:
  assumes "\<forall>q \<in> set qs. box_ok q"
  shows "map box_x qs = map Num (map (\<lambda>q. num_val (box_x q)) qs)"
    "map box_y qs = map Num (map (\<lambda>q. num_val (box_y q)) qs)"
    "map box_z qs = map Num (map (\<lambda>q. num_val (box_z q)) qs)"
    "map (\<lambda>q. jsadd (box_x q) (box_w q)) qs = map Num (map (\<lambda>q. num_val (box_x q) + num_val (box_w q)) qs)"
    "map (\<lambda>q. jsadd (box_y q) (box_d q)) qs = map Num (map (\<lambda>q. num_val (box_y q) + num_val (box_d q)) qs)"
    "map (\<lambda>q. jsadd (box_z q) (box_h q)) qs = map Num (map (\<lambda>q. num_val (box_z q) + num_val (box_h q)) qs)"
  using assms by (auto simp: box_ok_def)

lemma cityBounds_bbox:
  assumes "city_boxes st \<noteq> []" "\<forall>q \<in> set (city_boxes st). box_ok q"
  shows "cityBounds st
     = \<lparr> minX = Num (lo_x (city_bbox (city_boxes st))), maxX = Num (hi_x (city_bbox (city_boxes st))),
         minY = Num (lo_y (city_bbox (city_boxes st))), maxY = Num (hi_y (city_bbox (city_boxes st))),
         minZ = Num (lo_z (city_bbox (city_boxes st))), maxZ = Num (hi_z (city_bbox (city_boxes st))) \<rparr>"
  unfolding cityBounds_boxes box_ok_maps [OF assms(2)]
  using assms(1) by (simp add: Math_min_comp Math_max_comp city_bbox_def)

lemma boxCorners_num:
  "boxCorners \<lparr> minX = Num (lo_x r), maxX = Num (hi_x r), minY = Num (lo_y r),
                maxY = Num (hi_y r), minZ = Num (lo_z r), maxZ = Num (hi_z r) \<rparr>
     = map (\<lambda>c. \<lparr> px = Num (iso_x c), py = Num (iso_y c) \<rparr>) (bbox_corners r)"
  by (simp add: boxCorners_def bbox_corners_def toIsoRaw_def isoAngle_def jssub_def iso_x_def iso_y_def)

lemma bbox_proper:
  assumes "qs \<noteq> []" "\<forall>q \<in> set qs. box_ok q"
  shows "lo_x (city_bbox qs) < hi_x (city_bbox qs)"
    "lo_y (city_bbox qs) < hi_y (city_bbox qs)"
    "lo_z (city_bbox qs) < hi_z (city_bbox qs)"
proof -
  from assms(1) obtain q where q: "q \<in> set qs" by (cases qs) auto
  with assms(2) have ok: "box_ok q" by blast
  then obtain x y z w d h where v: "num_val (box_x q) = x" "num_val (box_y q) = y" "num_val (box_z q) = z"
    "num_val (box_w q) = w" "num_val (box_d q) = d" "num_val (box_h q) = h" "0 < w" "0 < d" "0 < h"
    unfolding box_ok_def by auto
  have "lo_x (city_bbox qs) \<le> x" "x + w \<le> hi_x (city_bbox qs)"
    "lo_y (city_bbox qs) \<le> y" "y + d \<le> hi_y (city_bbox qs)"
    "lo_z (city_bbox qs) \<le> z" "z + h \<le> hi_z (city_bbox qs)"
    using q v by (auto simp: city_bbox_def intro!: Min_le Max_ge)
  with v show "lo_x (city_bbox qs) < hi_x (city_bbox qs)"
    "lo_y (city_bbox qs) < hi_y (city_bbox qs)"
    "lo_z (city_bbox qs) < hi_z (city_bbox qs)"
    by linarith+
qed

lemma projected_positive:
  assumes "lo_x r < hi_x r" "lo_y r < hi_y r" "lo_z r < hi_z r"
  shows "0 < projected_width r" "0 < projected_height r"
proof -
  have c: "0 < cos (pi / 6)" by (simp add: cos_30)
  have "iso_x (hi_x r, lo_y r, lo_z r) \<le> Max (set (map iso_x (bbox_corners r)))"
    by (rule Max_ge) (simp_all add: bbox_corners_def)
  moreover have "Min (set (map iso_x (bbox_corners r))) \<le> iso_x (lo_x r, hi_y r, lo_z r)"
    by (rule Min_le) (simp_all add: bbox_corners_def)
  moreover have "iso_x (lo_x r, hi_y r, lo_z r) < iso_x (hi_x r, lo_y r, lo_z r)"
    using assms c by (simp add: iso_x_def)
  ultimately show "0 < projected_width r"
    unfolding projected_width_def by linarith
  have "iso_y (hi_x r, hi_y r, lo_z r) \<le> Max (set (map iso_y (bbox_corners r)))"
    by (rule Max_ge) (simp_all add: bbox_corners_def)
  moreover have "Min (set (map iso_y (bbox_corners r))) \<le> iso_y (lo_x r, lo_y r, hi_z r)"
    by (rule Min_le) (simp_all add: bbox_corners_def)
  moreover have "(lo_x r + lo_y r) / 2 - hi_z r < (hi_x r + hi_y r) / 2 - lo_z r"
    using assms by (simp add: field_simps)
  then have "iso_y (lo_x r, lo_y r, hi_z r) < iso_y (hi_x r, hi_y r, lo_z r)"
    by (simp add: iso_y_def sin_30)
  ultimately show "0 < projected_height r"
    unfolding projected_height_def by linarith
qed

lemma centre_shift:
  assumes "cs \<noteq> []"
  shows "(Min (set (map (\<lambda>c. f c + k) cs)) + Max (set (map (\<lambda>c. f c + k) cs))) / 2
           = (Min (set (map f cs)) + Max (set (map f cs))) / 2 + (k::real)"
  using assms Min_add_commute [of "set cs" f k] Max_add_commute [of "set cs" f k]
  by (simp add: field_simps)

text \<open>The camera that the view fit computes, on real numbers.\<close>

lemma calculateViewTransform_camera:
  assumes ne: "city_boxes st \<noteq> []" and ok: "\<forall>q \<in> set (city_boxes st). box_ok q"
  defines "r \<equiv> city_bbox (city_boxes st)"
  defines "s \<equiv> min (min ((canvas_width st - 2 * 50) / projected_width r)
                          ((canvas_height st - 2 * 50) / projected_height r)) (3 / 2)"
  shows "cfg_camera (calculateViewTransform st)
     = \<lparr> scale = Num s,
         offsetX = Num (canvas_width st / 2
                        - (Min (set (map (\<lambda>c. iso_x c * s) (bbox_corners r)))
                           + Max (set (map (\<lambda>c. iso_x c * s) (bbox_corners r)))) / 2),
         offsetY = Num (canvas_height st / 2
                        - (Min (set (map (\<lambda>c. iso_y c * s) (bbox_corners r)))
                           + Max (set (map (\<lambda>c. iso_y c * s) (bbox_corners r)))) / 2) \<rparr>"
proof -
  have nonempty: "(buildings st = [] \<and> packages st = []) = False"
    using ne by (auto simp: city_boxes_def package_box_def building_box_def)
  have cs: "bbox_corners r \<noteq> []" by (simp add: bbox_corners_def)
  have pos: "0 < projected_width r" "0 < projected_height r"
    unfolding r_def using bbox_proper [OF ne ok] by (rule projected_positive)+
  have corners: "boxCorners (cityBounds st)
      = map (\<lambda>c. \<lparr> px = Num (iso_x c), py = Num (iso_y c) \<rparr>) (bbox_corners r)"
    unfolding cityBounds_bbox [OF ne ok] r_def by (rule boxCorners_num)
  have w: "jssub (Math_max (map px (boxCorners (cityBounds st)))) (Math_min (map px (boxCorners (cityBounds st))))
             = Num (projected_width r)"
    using cs by (simp add: corners comp_def Math_min_comp [unfolded comp_def] Math_max_comp [unfolded comp_def]
        jssub_def projected_width_def)
  have h: "jssub (Math_max (map py (boxCorners (cityBounds st)))) (Math_min (map py (boxCorners (cityBounds st))))
             = Num (projected_height r)"
    using cs by (simp add: corners comp_def Math_min_comp [unfolded comp_def] Math_max_comp [unfolded comp_def]
        jssub_def projected_height_def)
  have sc: "jsmin (jsmin (jsdiv (jssub (Num (canvas_width st)) (jsmul (Num 50) (Num 2))) (Num (projected_width r)))
                         (jsdiv (jssub (Num (canvas_height st)) (jsmul (Num 50) (Num 2))) (Num (projected_height r))))
                  (Num (3 / 2)) = Num s"
    using pos by (simp add: s_def jssub_def)
  show ?thesis
    unfolding calculateViewTransform_def Let_def w h sc nonempty
    using cs
    by (simp add: corners comp_def Math_min_comp [unfolded comp_def] Math_max_comp [unfolded comp_def]
        jssub_def)
qed

lemma toIsometric_num:
  "toIsometric \<lparr> scale = Num s, offsetX = Num ox, offsetY = Num oy \<rparr> (Num x) (Num y) (Num z)
     = \<lparr> px = Num (iso_x (x, y, z) * s + ox), py = Num (iso_y (x, y, z) * s + oy) \<rparr>"
  by (simp add: toIsometric_def isoAngle_def jssub_def Let_def iso_x_def iso_y_def)

text \<open>
  C3: for placements that are not empty, every box being finite with positive width,
  depth and height, and for every canvas size, \<open>calculateViewTransform\<close> assigns the camera
  only; the projected width and height of the eight corners of the city's bounding box are
  positive; the scale is the minimum of (canvas width - 2 * 50) / projected width,
  (canvas height - 2 * 50) / projected height and 1.5; and with the new camera the
  rectangle spanned by the eight corners projected by \<open>toIsometric\<close> has its centre at the
  centre of the canvas.
\<close>

theorem calculateViewTransform_fit:
  assumes "packages st \<noteq> [] \<or> buildings st \<noteq> []"
    and "\<forall>q \<in> set (city_boxes st). box_ok q"
  shows "let r = city_bbox (city_boxes st);
             s = min (min ((canvas_width st - 2 * 50) / projected_width r)
                          ((canvas_height st - 2 * 50) / projected_height r)) (3 / 2);
             cam = cfg_camera (calculateViewTransform st);
             pts = map (\<lambda>c. case c of (x, y, z) \<Rightarrow> toIsometric cam (Num x) (Num y) (Num z))
                     (bbox_corners r)
         in calculateViewTransform st = st\<lparr> cfg_camera := cam \<rparr>
            \<and> 0 < projected_width r \<and> 0 < projected_height r
            \<and> scale cam = Num s
            \<and> list_all (\<lambda>p. finite_num (px p) \<and> finite_num (py p)) pts
            \<and> (Min (set (map (\<lambda>p. num_val (px p)) pts))
                 + Max (set (map (\<lambda>p. num_val (px p)) pts))) / 2 = canvas_width st / 2
            \<and> (Min (set (map (\<lambda>p. num_val (py p)) pts))
                 + Max (set (map (\<lambda>p. num_val (py p)) pts))) / 2 = canvas_height st / 2"
proof -
  define r where "r = city_bbox (city_boxes st)"
  define s where "s = min (min ((canvas_width st - 2 * 50) / projected_width r)
                          ((canvas_height st - 2 * 50) / projected_height r)) (3 / 2)"
  define ox where "ox = canvas_width st / 2
                        - (Min (set (map (\<lambda>c. iso_x c * s) (bbox_corners r)))
                           + Max (set (map (\<lambda>c. iso_x c * s) (bbox_corners r)))) / 2"
  define oy where "oy = canvas_height st / 2
                        - (Min (set (map (\<lambda>c. iso_y c * s) (bbox_corners r)))
                           + Max (set (map (\<lambda>c. iso_y c * s) (bbox_corners r)))) / 2"
  define pts where "pts = map (\<lambda>c. case c of (x, y, z) \<Rightarrow>
        toIsometric (cfg_camera (calculateViewTransform st)) (Num x) (Num y) (Num z)) (bbox_corners r)"
  have ne: "city_boxes st \<noteq> []"
    using assms(1) by (auto simp: city_boxes_def package_box_def building_box_def)
  have cam: "cfg_camera (calculateViewTransform st) = \<lparr> scale = Num s, offsetX = Num ox, offsetY = Num oy \<rparr>"
    unfolding ox_def oy_def s_def r_def by (rule calculateViewTransform_camera [OF ne assms(2)])
  have rest: "calculateViewTransform st = st\<lparr> cfg_camera := cfg_camera (calculateViewTransform st) \<rparr>"
    by (simp add: calculateViewTransform_def Let_def)
  have pos: "0 < projected_width r" "0 < projected_height r"
    unfolding r_def using bbox_proper [OF ne assms(2)] by (rule projected_positive)+
  have cs: "bbox_corners r \<noteq> []" by (simp add: bbox_corners_def)
  have pts': "pts = map (\<lambda>c. \<lparr> px = Num (iso_x c * s + ox), py = Num (iso_y c * s + oy) \<rparr>) (bbox_corners r)"
    unfolding pts_def cam by (rule map_cong) (auto simp: toIsometric_num)
  have fin: "list_all (\<lambda>p. finite_num (px p) \<and> finite_num (py p)) pts"
    by (simp add: pts' list_all_iff finite_num_def)
  have xs: "map (\<lambda>p. num_val (px p)) pts = map (\<lambda>c. iso_x c * s + ox) (bbox_corners r)"
    and ys: "map (\<lambda>p. num_val (py p)) pts = map (\<lambda>c. iso_y c * s + oy) (bbox_corners r)"
    by (simp_all add: pts' comp_def)
  have cx: "(Min (set (map (\<lambda>p. num_val (px p)) pts))
                 + Max (set (map (\<lambda>p. num_val (px p)) pts))) / 2 = canvas_width st / 2"
    unfolding xs centre_shift [OF cs] by (simp add: ox_def)
  have cy: "(Min (set (map (\<lambda>p. num_val (py p)) pts))
                 + Max (set (map (\<lambda>p. num_val (py p)) pts))) / 2 = canvas_height st / 2"
    unfolding ys centre_shift [OF cs] by (simp add: oy_def)
  from rest pos cam fin cx cy show ?thesis
    unfolding Let_def r_def [symmetric] s_def [symmetric] pts_def [symmetric] by simp
qed

lemma one_platform_bbox:
  "city_bbox (city_boxes one_platform)
     = \<lparr> lo_x = 150, hi_x = 170, lo_y = 150, hi_y = 190, lo_z = 0, hi_z = 5 \<rparr>"
  by (simp add: city_bbox_def city_boxes_def package_box_def building_box_def one_platform_def initialState_def)

lemma one_platform_projected:
  "projected_width (city_bbox (city_boxes one_platform)) = 30 * sqrt 3"
  "projected_height (city_bbox (city_boxes one_platform)) = 35"
  by (simp_all add: one_platform_bbox projected_width_def projected_height_def bbox_corners_def
      iso_x_def iso_y_def cos_30 sin_30)

theorem calculateViewTransform_fit_witness:
  "scale (cfg_camera (calculateViewTransform one_platform)) = Num (3 / 2)
   \<and> calculateViewTransform one_platform
       = one_platform\<lparr> cfg_camera := cfg_camera (calculateViewTransform one_platform) \<rparr>"
proof -
  have a: "packages one_platform \<noteq> [] \<or> buildings one_platform \<noteq> []"
    by (simp add: one_platform_def)
  have b: "\<forall>q \<in> set (city_boxes one_platform). box_ok q"
    by (simp add: city_boxes_def package_box_def building_box_def one_platform_def initialState_def box_ok_def)
  have "sqrt 3 \<le> 2" by (rule real_le_lsqrt) simp_all
  then have "(3::real) / 2 \<le> 70 / (3 * sqrt 3)"
    by (simp add: field_simps)
  then have s: "min (min (70 / (3 * sqrt 3)) (100 / 7)) (3 / 2) = (3::real) / 2"
    by simp
  have c: "canvas_width one_platform = 800" "canvas_height one_platform = 600"
    by (simp_all add: one_platform_def initialState_def)
  from calculateViewTransform_fit [OF a b] show ?thesis
    by (simp add: Let_def one_platform_projected c s)
qed

subsection \<open>The projection\<close>

text \<open>
  C4: for all finite world coordinates and a finite camera, \<open>toIsometric\<close> returns
  \<open>screenX = (x - y) * cos 30\<degree> * scale + offsetX\<close> and
  \<open>screenY = ((x + y) * sin 30\<degree> - z) * scale + offsetY\<close>; and for all arguments whatever,
  two points that differ only in \<open>z\<close> have the same screen x.
\<close>

theorem toIsometric_formula:
  "toIsometric \<lparr> scale = Num s, offsetX = Num ox, offsetY = Num oy \<rparr> (Num x) (Num y) (Num z)
     = \<lparr> px = Num ((x - y) * cos (pi / 6) * s + ox),
         py = Num (((x + y) * sin (pi / 6) - z) * s + oy) \<rparr>
   \<and> px (toIsometric cam a b c) = px (toIsometric cam a b c')"
  by (simp add: toIsometric_def isoAngle_def jssub_def Let_def)

theorem toIsometric_formula_witness:
  "toIsometric \<lparr> scale = Num 2, offsetX = Num 100, offsetY = Num 50 \<rparr> (Num 10) (Num 4) (Num 7)
     = \<lparr> px = Num (6 * sqrt 3 + 100), py = Num 50 \<rparr>
   \<and> px (toIsometric \<lparr> scale = Num 2, offsetX = Num 100, offsetY = Num 50 \<rparr> (Num 10) (Num 4) (Num 7))
     = px (toIsometric \<lparr> scale = Num 2, offsetX = Num 100, offsetY = Num 50 \<rparr> (Num 10) (Num 4) NaN)"
  using toIsometric_formula [of 2 100 50 10 4 7
      "\<lparr> scale = Num 2, offsetX = Num 100, offsetY = Num 50 \<rparr>" "Num 10" "Num 4" "Num 7" NaN]
  by (simp add: toIsometric_def isoAngle_def jssub_def cos_30 sin_30)

subsection \<open>The hue of the commit frequency\<close>

lemma frequency_hue_num:
  assumes "maxCommits m = Num M" "0 < M"
  shows "frequency_hue m cb c = Num ((if cb then 270 else 240) - min 1 (c / M) * 240)"
  using assms by (simp add: frequency_hue_def Let_def jssub_def)

text \<open>
  C5: for a manager whose \<open>maxCommits\<close> is a positive number \<open>M\<close> and with frequency colouring
  enabled, the hue of \<open>getColorForBuilding\<close> does not increase as the commit count grows
  within \<open>[0, M]\<close>; it is 240 at 0 and 0 at \<open>M\<close> (270 and 30 in colour-blind mode). With
  the \<open>commits\<close> field or the metadata absent, or with frequency colouring disabled, the
  hue is 200.
\<close>

theorem hue_heat_map:
  assumes "maxCommits m = Num M" and "0 < M"
    and "default_to True (useFrequency opts)"
  shows "(\<forall>c c'. 0 \<le> c \<and> c \<le> c' \<and> c' \<le> M \<longrightarrow>
            jsle (hue (getColorForBuilding e m (Some (g\<lparr> commits := Some c' \<rparr>)) opts))
                 (hue (getColorForBuilding e m (Some (g\<lparr> commits := Some c \<rparr>)) opts)))
       \<and> hue (getColorForBuilding e m (Some (g\<lparr> commits := Some 0 \<rparr>)) opts)
           = Num (if default_to False (colorBlindMode opts) then 270 else 240)
       \<and> hue (getColorForBuilding e m (Some (g\<lparr> commits := Some M \<rparr>)) opts)
           = Num (if default_to False (colorBlindMode opts) then 30 else 0)
       \<and> hue (getColorForBuilding e m (Some (g\<lparr> commits := None \<rparr>)) opts') = Num 200
       \<and> hue (getColorForBuilding e m None opts') = Num 200
       \<and> hue (getColorForBuilding e m gm (opts'\<lparr> useFrequency := Some False \<rparr>)) = Num 200"
proof -
  have mono: "jsle (hue (getColorForBuilding e m (Some (g\<lparr> commits := Some c' \<rparr>)) opts))
                 (hue (getColorForBuilding e m (Some (g\<lparr> commits := Some c \<rparr>)) opts))"
    if "0 \<le> c" "c \<le> c'" "c' \<le> M" for c c'
  proof -
    have "c / M \<le> c' / M"
      using that assms(2) by (simp add: divide_right_mono)
    then have "min 1 (c / M) * 240 \<le> min 1 (c' / M) * 240"
      by (simp add: min_le_iff_disj)
    then show ?thesis
      using assms by (auto simp: getColorForBuilding_def Let_def frequency_hue_num jsle_def)
  qed
  have zero: "hue (getColorForBuilding e m (Some (g\<lparr> commits := Some 0 \<rparr>)) opts)
           = Num (if default_to False (colorBlindMode opts) then 270 else 240)"
    using assms by (simp add: getColorForBuilding_def Let_def frequency_hue_num)
  have top: "hue (getColorForBuilding e m (Some (g\<lparr> commits := Some M \<rparr>)) opts)
           = Num (if default_to False (colorBlindMode opts) then 30 else 0)"
    using assms by (simp add: getColorForBuilding_def Let_def frequency_hue_num)
  have absent: "hue (getColorForBuilding e m (Some (g\<lparr> commits := None \<rparr>)) opts') = Num 200"
    by (simp add: getColorForBuilding_def Let_def)
  have nometa: "hue (getColorForBuilding e m None opts') = Num 200"
    by (simp add: getColorForBuilding_def Let_def)
  have disabled: "hue (getColorForBuilding e m gm (opts'\<lparr> useFrequency := Some False \<rparr>)) = Num 200"
    by (simp add: getColorForBuilding_def Let_def split: option.splits)
  from mono zero top absent nometa disabled show ?thesis by blast
qed

theorem hue_heat_map_witness:
  "jsle (hue (getColorForBuilding env0 (new_GitMetadataColorManager env0 (Num 45) (Num 3) (Num 0) (Num 0))
               (Some \<lparr> commits = Some 45, authors = None, lastModified = None \<rparr>)
               \<lparr> useFrequency = None, useAge = None, colorBlindMode = None \<rparr>))
        (hue (getColorForBuilding env0 (new_GitMetadataColorManager env0 (Num 45) (Num 3) (Num 0) (Num 0))
               (Some \<lparr> commits = Some 10, authors = None, lastModified = None \<rparr>)
               \<lparr> useFrequency = None, useAge = None, colorBlindMode = None \<rparr>))
   \<and> hue (getColorForBuilding env0 (new_GitMetadataColorManager env0 (Num 45) (Num 3) (Num 0) (Num 0))
               (Some \<lparr> commits = Some 0, authors = None, lastModified = None \<rparr>)
               \<lparr> useFrequency = None, useAge = None, colorBlindMode = None \<rparr>) = Num 240
   \<and> hue (getColorForBuilding env0 (new_GitMetadataColorManager env0 (Num 45) (Num 3) (Num 0) (Num 0))
               (Some \<lparr> commits = Some 45, authors = None, lastModified = None \<rparr>)
               \<lparr> useFrequency = None, useAge = None, colorBlindMode = None \<rparr>) = Num 0"
proof -
  let ?m = "new_GitMetadataColorManager env0 (Num 45) (Num 3) (Num 0) (Num 0)"
  let ?o = "\<lparr> useFrequency = None, useAge = None, colorBlindMode = None \<rparr>"
  let ?g = "\<lparr> commits = Some 0, authors = None, lastModified = None \<rparr>"
  have m: "maxCommits ?m = Num 45"
    by (simp add: new_GitMetadataColorManager_def jsor_def Let_def)
  have p: "(0::real) < 45" by simp
  have u: "default_to True (useFrequency ?o)" by simp
  from hue_heat_map [OF m p u, of env0 ?g ?o None]
  have a: "\<And>c c'. 0 \<le> c \<Longrightarrow> c \<le> c' \<Longrightarrow> c' \<le> 45 \<Longrightarrow>
            jsle (hue (getColorForBuilding env0 ?m (Some (?g\<lparr> commits := Some c' \<rparr>)) ?o))
                 (hue (getColorForBuilding env0 ?m (Some (?g\<lparr> commits := Some c \<rparr>)) ?o))"
    and b: "hue (getColorForBuilding env0 ?m (Some (?g\<lparr> commits := Some 0 \<rparr>)) ?o) = Num 240"
    and c: "hue (getColorForBuilding env0 ?m (Some (?g\<lparr> commits := Some 45 \<rparr>)) ?o) = Num 0"
    by simp_all
  from a [of 10 45] b c show ?thesis by simp
qed

subsection \<open>The git normalisation\<close>

lemma max_Ints: "(a::real) \<in> \<int> \<Longrightarrow> b \<in> \<int> \<Longrightarrow> max a b \<in> \<int>"
  by (simp add: max_def)

lemma scan_ok_scanClass:
  assumes "scan_ok a" "int_counts c"
  shows "scan_ok (scanClass e a c)"
proof -
  from assms(1) obtain k j where a: "scan_maxCommits a = Num k" "k \<in> \<int>" "0 \<le> k"
    "scan_maxAuthors a = Num j" "j \<in> \<int>" "0 \<le> j"
    unfolding scan_ok_def by blast
  show ?thesis
  proof (cases "cls_gitMetadata c")
    case None
    then show ?thesis using assms(1) by (simp add: scanClass_def)
  next
    case (Some g)
    have c: "scan_maxCommits (scanClass e a c)
               = (case commits g of None \<Rightarrow> Num k | Some n \<Rightarrow> Num (max k n))"
      using Some a by (simp add: scanClass_def Let_def split: option.splits)
    have d: "scan_maxAuthors (scanClass e a c)
               = (case authors g of None \<Rightarrow> Num j | Some n \<Rightarrow> Num (max j n))"
      using Some a by (simp add: scanClass_def Let_def split: option.splits)
    from assms(2) Some have i: "(case commits g of None \<Rightarrow> True | Some n \<Rightarrow> n \<in> \<int>)"
      "(case authors g of None \<Rightarrow> True | Some n \<Rightarrow> n \<in> \<int>)"
      by (simp_all add: int_counts_def)
    show ?thesis
      unfolding scan_ok_def c d using a i
      by (auto split: option.splits simp: max_Ints intro: max.coboundedI1)
  qed
qed

lemma hasGitData_scanClass:
  "hasGitData (scanClass e a c) = (hasGitData a \<or> cls_gitMetadata c \<noteq> None)"
  by (simp add: scanClass_def Let_def split: option.splits)

lemma scan_classes:
  assumes "scan_ok a" "\<forall>c \<in> set cs. int_counts c"
  shows "scan_ok (foldl (scanClass e) a cs)
       \<and> hasGitData (foldl (scanClass e) a cs)
           = (hasGitData a \<or> (\<exists>c \<in> set cs. cls_gitMetadata c \<noteq> None))"
  using assms
proof (induction cs arbitrary: a)
  case Nil
  then show ?case by simp
next
  case (Cons c cs)
  have "scan_ok (scanClass e a c)"
    using Cons.prems by (simp add: scan_ok_scanClass)
  with Cons show ?case
    by (auto simp: hasGitData_scanClass)
qed

lemma scan_packages:
  assumes "scan_ok a" "\<forall>p \<in> set ps. \<forall>c \<in> set (pkg_classes p). int_counts c"
  shows "scan_ok (foldl (\<lambda>a p. foldl (scanClass e) a (pkg_classes p)) a ps)
       \<and> hasGitData (foldl (\<lambda>a p. foldl (scanClass e) a (pkg_classes p)) a ps)
           = (hasGitData a \<or> (\<exists>p \<in> set ps. \<exists>c \<in> set (pkg_classes p). cls_gitMetadata c \<noteq> None))"
  using assms
proof (induction ps arbitrary: a)
  case Nil
  then show ?case by simp
next
  case (Cons p ps)
  have s: "scan_ok (foldl (scanClass e) a (pkg_classes p))"
    and h: "hasGitData (foldl (scanClass e) a (pkg_classes p))
           = (hasGitData a \<or> (\<exists>c \<in> set (pkg_classes p). cls_gitMetadata c \<noteq> None))"
    using scan_classes [of a "pkg_classes p" e] Cons.prems by simp_all
  from Cons.IH [OF s] Cons.prems(2) h show ?case
    by auto
qed

lemma dates_scanClass:
  assumes "no_date c"
  shows "scan_oldestDate (scanClass e a c) = scan_oldestDate a
       \<and> scan_newestDate (scanClass e a c) = scan_newestDate a"
  using assms by (auto simp: scanClass_def no_date_def Let_def split: option.splits)

lemma dates_classes:
  assumes "\<forall>c \<in> set cs. no_date c"
  shows "scan_oldestDate (foldl (scanClass e) a cs) = scan_oldestDate a
       \<and> scan_newestDate (foldl (scanClass e) a cs) = scan_newestDate a"
  using assms by (induction cs arbitrary: a) (simp_all add: dates_scanClass)

lemma dates_packages:
  assumes "\<forall>p \<in> set ps. \<forall>c \<in> set (pkg_classes p). no_date c"
  shows "scan_oldestDate (foldl (\<lambda>a p. foldl (scanClass e) a (pkg_classes p)) a ps) = scan_oldestDate a
       \<and> scan_newestDate (foldl (\<lambda>a p. foldl (scanClass e) a (pkg_classes p)) a ps) = scan_newestDate a"
  using assms by (induction ps arbitrary: a) (simp_all add: dates_classes)

lemma Ints_ge_1: "(k::real) \<in> \<int> \<Longrightarrow> 0 \<le> k \<Longrightarrow> k \<noteq> 0 \<Longrightarrow> 1 \<le> k"
  by (metis Ints_cases less_eq_real_def of_int_0_less_iff of_int_1_le_iff int_one_le_iff_zero_less)

text \<open>
  C10: whenever a class of the dataset carries \<open>gitMetadata\<close> (the commit and author counts
  being integers), \<open>calculateGitNormalization\<close> constructs the colour manager with
  \<open>maxCommits\<close> and \<open>maxAuthors\<close> at least 1, the same values as in
  \<open>CONFIG.gitNormalization\<close>; the division \<open>commits / maxCommits\<close> is then the real quotient
  (no division by zero); and when no class has a \<open>lastModified\<close>, both dates of the manager
  are the current time.
\<close>

theorem git_normalization_maxima:
  assumes "\<exists>p \<in> set (data_packages d). \<exists>c \<in> set (pkg_classes p). cls_gitMetadata c \<noteq> None"
    and "\<forall>p \<in> set (data_packages d). \<forall>c \<in> set (pkg_classes p). int_counts c"
  shows "\<exists>m M A. gitColorManager (calculateGitNormalization e st d) = Some m
           \<and> maxCommits m = Num M \<and> 1 \<le> M \<and> maxAuthors m = Num A \<and> 1 \<le> A
           \<and> gn_maxCommits (cfg_gitNormalization (calculateGitNormalization e st d)) = Num M
           \<and> gn_maxAuthors (cfg_gitNormalization (calculateGitNormalization e st d)) = Num A
           \<and> (\<forall>c. jsdiv (Num c) (maxCommits m) = Num (c / M))
           \<and> ((\<forall>p \<in> set (data_packages d). \<forall>c \<in> set (pkg_classes p). no_date c)
                \<longrightarrow> oldestDate m = Num (now e) \<and> newestDate m = Num (now e))"
proof -
  let ?a = "scanData e d"
  have init: "scan_ok \<lparr> scan_maxCommits = Num 0, scan_maxAuthors = Num 0, scan_oldestDate = PInf,
         scan_newestDate = Num 0, hasGitData = False \<rparr>"
    by (simp add: scan_ok_def)
  from scan_packages [OF init assms(2), of e] assms(1)
  have ok: "scan_ok ?a" and has: "hasGitData ?a"
    by (simp_all add: scanData_def)
  from ok obtain k j where a: "scan_maxCommits ?a = Num k" "k \<in> \<int>" "0 \<le> k"
    "scan_maxAuthors ?a = Num j" "j \<in> \<int>" "0 \<le> j"
    unfolding scan_ok_def by blast
  define M where "M = (if k = 0 then 1 else k)"
  define A where "A = (if j = 0 then 1 else j)"
  have M: "1 \<le> M" and A: "1 \<le> A"
    using a Ints_ge_1 by (auto simp: M_def A_def)
  have mc: "jsor (scan_maxCommits ?a) (Num 1) = Num M"
    and ma: "jsor (scan_maxAuthors ?a) (Num 1) = Num A"
    using a by (simp_all add: jsor_def M_def A_def)
  have m2: "jsor (Num M) (Num 1) = Num M" "jsor (Num A) (Num 1) = Num A"
    using M A by (simp_all add: jsor_def)
  have dates: "scan_oldestDate ?a = PInf \<and> scan_newestDate ?a = Num 0"
    if "\<forall>p \<in> set (data_packages d). \<forall>c \<in> set (pkg_classes p). no_date c"
    using dates_packages [OF that, of e] by (simp add: scanData_def)
  show ?thesis
    using has mc ma m2 M A dates
    by (auto simp: calculateGitNormalization_def Let_def new_GitMetadataColorManager_def jsor_def)
qed

theorem git_normalization_maxima_witness:
  "gitColorManager (calculateGitNormalization env0 (initialState 800 600) zero_commits_data)
     = Some \<lparr> maxCommits = Num 1, maxAuthors = Num 1, oldestDate = Num 0, newestDate = Num 0,
              dateRange = Num 0 \<rparr>"
proof -
  have a: "\<exists>p \<in> set (data_packages zero_commits_data). \<exists>c \<in> set (pkg_classes p). cls_gitMetadata c \<noteq> None"
    by (simp add: zero_commits_data_def)
  have b: "\<forall>p \<in> set (data_packages zero_commits_data). \<forall>c \<in> set (pkg_classes p). int_counts c"
    by (simp add: zero_commits_data_def int_counts_def)
  from git_normalization_maxima [OF a b, of env0 "initialState 800 600"]
  obtain m where "gitColorManager (calculateGitNormalization env0 (initialState 800 600) zero_commits_data) = Some m"
    by blast
  then show ?thesis
    by (simp add: calculateGitNormalization_def scanData_def scanClass_def zero_commits_data_def
        Let_def new_GitMetadataColorManager_def jsor_def jssub_def env0_def)
qed

subsection \<open>Determinism of the layout\<close>

lemma placePackage_same_city:
  assumes "same_city st st'"
  shows "fst (placePackage sx mw i (rv, st) p) = fst (placePackage sx mw i (rv, st') p)
       \<and> same_city (snd (placePackage sx mw i (rv, st) p)) (snd (placePackage sx mw i (rv, st') p))"
  using assms by (simp add: placePackage_def same_city_def Let_def)

lemma placePackage_strategy:
  "layoutStrategy (snd (placePackage sx mw i rs p)) = layoutStrategy (snd rs)"
  by (simp add: placePackage_def Let_def)

lemma placePackages_same_city:
  assumes "same_city st st'"
  shows "fst (placePackages sx mw i (rv, st) ps) = fst (placePackages sx mw i (rv, st') ps)
       \<and> same_city (snd (placePackages sx mw i (rv, st) ps)) (snd (placePackages sx mw i (rv, st') ps))"
  using assms
proof (induction ps arbitrary: i rv st st')
  case Nil
  then show ?case by simp
next
  case (Cons p ps)
  obtain rv1 st1 where a: "placePackage sx mw i (rv, st) p = (rv1, st1)"
    by (cases "placePackage sx mw i (rv, st) p")
  obtain rv2 st2 where b: "placePackage sx mw i (rv, st') p = (rv2, st2)"
    by (cases "placePackage sx mw i (rv, st') p")
  from placePackage_same_city [OF Cons.prems, of sx mw i rv p] a b
  have "rv1 = rv2" "same_city st1 st2" by simp_all
  with Cons.IH [of st1 st2 "Suc i" rv1] a b show ?case by simp
qed

lemma placePackages_strategy:
  "layoutStrategy (snd (placePackages sx mw i rs ps)) = layoutStrategy (snd rs)"
  by (induction ps arbitrary: i rs) (simp_all add: placePackage_strategy)

lemma layoutPackagesInRegion_same_city:
  "same_city st st' \<Longrightarrow>
   same_city (layoutPackagesInRegion st ps sx sy mw) (layoutPackagesInRegion st' ps sx sy mw)"
  by (simp add: layoutPackagesInRegion_def placePackages_same_city)

lemma layoutPackagesInRegion_strategy:
  "layoutStrategy (layoutPackagesInRegion st ps sx sy mw) = layoutStrategy st"
  by (simp add: layoutPackagesInRegion_def placePackages_strategy)

lemma layoutPackagesQuadrant_same_city:
  "same_city st st' \<Longrightarrow> same_city (layoutPackagesQuadrant st ps) (layoutPackagesQuadrant st' ps)"
  by (simp add: layoutPackagesQuadrant_def Let_def layoutPackagesInRegion_same_city)

lemma layoutPackagesGrid_same_city:
  "same_city st st' \<Longrightarrow> same_city (layoutPackagesGrid st ps) (layoutPackagesGrid st' ps)"
  by (simp add: layoutPackagesGrid_def Let_def layoutPackagesInRegion_same_city)

lemma calculateGitNormalization_city:
  "buildings (calculateGitNormalization e st d) = buildings st
   \<and> packages (calculateGitNormalization e st d) = packages st
   \<and> layoutStrategy (calculateGitNormalization e st d) = layoutStrategy st"
  by (simp add: calculateGitNormalization_def Let_def)

lemma calculateViewTransform_city:
  "buildings (calculateViewTransform st) = buildings st
   \<and> packages (calculateViewTransform st) = packages st
   \<and> layoutStrategy (calculateViewTransform st) = layoutStrategy st"
  by (simp add: calculateViewTransform_def Let_def)

lemma processData_strategy: "layoutStrategy (processData e st d) = layoutStrategy st"
  by (simp add: processData_def Let_def calculateViewTransform_city calculateGitNormalization_city
      layoutPackagesGrid_def layoutPackagesQuadrant_def layoutPackagesInRegion_strategy)

lemma processData_same_city:
  assumes "layoutStrategy st = layoutStrategy st'"
  shows "same_city (processData e st d) (processData e' st' d)"
proof -
  have r: "same_city (st\<lparr> buildings := [], packages := [] \<rparr>) (st'\<lparr> buildings := [], packages := [] \<rparr>)"
    by (simp add: same_city_def)
  show ?thesis
    using assms layoutPackagesGrid_same_city [OF r] layoutPackagesQuadrant_same_city [OF r]
    by (simp add: processData_def Let_def same_city_def calculateViewTransform_city
        calculateGitNormalization_city)
qed

text \<open>
  C8: \<open>processData\<close> on the same dataset with the same layout strategy yields the same
  buildings and packages (positions, footprints and heights, in the same order) whatever the
  earlier placements, the canvas and the clock were; and a second run, started from the
  state the first one left, reproduces the placements of the first.
\<close>

theorem processData_deterministic:
  assumes "layoutStrategy st = layoutStrategy st'"
  shows "buildings (processData e st d) = buildings (processData e' st' d)
       \<and> packages (processData e st d) = packages (processData e' st' d)
       \<and> buildings (processData e' (processData e st d) d) = buildings (processData e st d)
       \<and> packages (processData e' (processData e st d) d) = packages (processData e st d)"
  using processData_same_city [OF assms, of e d e']
    processData_same_city [of "processData e st d" st e' d e] processData_strategy [of e st d]
  by (simp add: same_city_def)

theorem processData_deterministic_witness:
  "buildings (processData env0 (initialState 800 600) scenario_data)
     = buildings (processData (env0\<lparr> now := 1000 \<rparr>) (initialState 1024 768) scenario_data)
   \<and> packages (processData env0 (initialState 800 600) scenario_data)
     = packages (processData (env0\<lparr> now := 1000 \<rparr>) (initialState 1024 768) scenario_data)
   \<and> buildings (processData (env0\<lparr> now := 1000 \<rparr>)
         (processData env0 (initialState 800 600) scenario_data) scenario_data)
     = buildings (processData env0 (initialState 800 600) scenario_data)
   \<and> packages (processData (env0\<lparr> now := 1000 \<rparr>)
         (processData env0 (initialState 800 600) scenario_data) scenario_data)
     = packages (processData env0 (initialState 800 600) scenario_data)"
proof -
  have "layoutStrategy (initialState 800 600) = layoutStrategy (initialState 1024 768)"
    by (simp add: initialState_def)
  from processData_deterministic [OF this] show ?thesis .
qed

subsection \<open>The placements of a dataset\<close>

text \<open>
  For a dataset whose classes all have a \<open>linesOfCode\<close> that is a number and not negative,
  from any state and with either strategy, every box that \<open>processData\<close> leaves is finite
  with positive width, depth and height, and every package object is the layout of a package
  at a finite origin: the placements meet the hypotheses of the package layout and the view fit.
\<close>

lemma layout_numeric:
  assumes "classes_ok p"
  shows "\<exists>mw td. pl_width (calculatePackageLayout p) = Num mw \<and> 0 < mw
           \<and> pl_depth (calculatePackageLayout p) = Num td \<and> 0 < td
           \<and> pl_height (calculatePackageLayout p) = Num 5
           \<and> (\<forall>pos \<in> set (pl_positions (calculatePackageLayout p)).
                 \<exists>x y w d r. pos_x pos = Num x \<and> pos_y pos = Num y
                   \<and> calculateBuildingFootprint (linesOfCode (pos_class pos))
                       = \<lparr> fp_width = Num w, fp_depth = Num d \<rparr>
                   \<and> 0 < w \<and> 0 < d \<and> linesOfCode (pos_class pos) = Some r \<and> 0 \<le> r)"
proof -
  define cs where "cs = js_sort (\<lambda>a b. jssub (toNumber (linesOfCode b)) (toNumber (linesOfCode a))) (pkg_classes p)"
  define m where "m = min 6 (ceil_sqrt (length (pkg_classes p)))"
  define v where "v = placeClasses m 0 initVars cs"
  have L: "calculatePackageLayout p = \<lparr> pl_width = jsadd (maxWidth v) CONFIG_packagePadding,
           pl_height = Num 5, pl_depth = jsadd (totalDepth v) CONFIG_packagePadding,
           pl_positions = positions v \<rparr>"
    by (simp add: calculatePackageLayout_def Let_def v_def m_def cs_def)
  have cs_ok: "\<forall>c \<in> set cs. \<exists>r. linesOfCode c = Some r \<and> 0 \<le> r"
    using assms by (simp add: cs_def set_js_sort classes_ok_def)
  have inv: "layout_inv v"
    unfolding v_def by (rule layout_inv_placeClasses [OF layout_inv_init cs_ok])
  then obtain cx cy rh mw td where nv:
    "maxWidth v = Num mw" "totalDepth v = Num td" "0 \<le> mw" "20 \<le> td"
    and ok: "\<forall>pos \<in> set (positions v). pos_ok cx cy rh mw td pos"
    unfolding layout_inv_def by blast
  have "map pos_class (positions v) = cs"
    using positions_placeClasses [of m 0 initVars cs] by (simp add: v_def initVars_def)
  then have cls: "pos_class pos \<in> set cs" if "pos \<in> set (positions v)" for pos
    using that by (metis image_eqI set_map)
  have each: "\<exists>x y w d r. pos_x pos = Num x \<and> pos_y pos = Num y
                   \<and> calculateBuildingFootprint (linesOfCode (pos_class pos))
                       = \<lparr> fp_width = Num w, fp_depth = Num d \<rparr>
                   \<and> 0 < w \<and> 0 < d \<and> linesOfCode (pos_class pos) = Some r \<and> 0 \<le> r"
    if "pos \<in> set (positions v)" for pos
  proof -
    from ok that have "pos_ok cx cy rh mw td pos" by blast
    then obtain x y w d where "pos_x pos = Num x" "pos_y pos = Num y"
      "calculateBuildingFootprint (linesOfCode (pos_class pos))
         = \<lparr> fp_width = Num w, fp_depth = Num d \<rparr>" "0 < w" "0 < d"
      by (rule pos_okE)
    moreover from cls [OF that] cs_ok obtain r where "linesOfCode (pos_class pos) = Some r" "0 \<le> r"
      by blast
    ultimately show ?thesis by blast
  qed
  show ?thesis
    using nv each by (simp add: L)
qed

lemma makePackageObj_boxes_ok:
  assumes "classes_ok p"
  shows "box_ok (package_box (makePackageObj p (calculatePackageLayout p) (Num X) (Num Y)))"
    and "\<forall>b \<in> set (p_buildings (makePackageObj p (calculatePackageLayout p) (Num X) (Num Y))).
           box_ok (building_box b)"
proof -
  from layout_numeric [OF assms] obtain mw td where L:
    "pl_width (calculatePackageLayout p) = Num mw" "0 < mw"
    "pl_depth (calculatePackageLayout p) = Num td" "0 < td"
    "pl_height (calculatePackageLayout p) = Num 5"
    and each: "\<forall>pos \<in> set (pl_positions (calculatePackageLayout p)).
                 \<exists>x y w d r. pos_x pos = Num x \<and> pos_y pos = Num y
                   \<and> calculateBuildingFootprint (linesOfCode (pos_class pos))
                       = \<lparr> fp_width = Num w, fp_depth = Num d \<rparr>
                   \<and> 0 < w \<and> 0 < d \<and> linesOfCode (pos_class pos) = Some r \<and> 0 \<le> r"
    by blast
  show "box_ok (package_box (makePackageObj p (calculatePackageLayout p) (Num X) (Num Y)))"
    using L by (simp add: box_ok_def package_box_def makePackageObj_def)
  have "box_ok (building_box (makeBuilding p (Num X) (Num Y) pos))"
    if "pos \<in> set (pl_positions (calculatePackageLayout p))" for pos
  proof -
    from each that obtain x y w d r where "pos_x pos = Num x" "pos_y pos = Num y"
      "calculateBuildingFootprint (linesOfCode (pos_class pos))
         = \<lparr> fp_width = Num w, fp_depth = Num d \<rparr>"
      "0 < w" "0 < d" "linesOfCode (pos_class pos) = Some r" "0 \<le> r"
      by blast
    then show ?thesis
      by (simp add: box_ok_def building_box_def makeBuilding_def Let_def)
  qed
  then show "\<forall>b \<in> set (p_buildings (makePackageObj p (calculatePackageLayout p) (Num X) (Num Y))).
           box_ok (building_box b)"
    by (simp add: makePackageObj_def)
qed

lemma placePackage_ok:
  assumes "region_ok rs" "classes_ok (pwm_pkg pw)"
  shows "region_ok (placePackage (Num sx) mrw i rs pw)"
proof -
  from assms(1) obtain x y h where rv: "fst rs = \<lparr> packageX = Num x, packageY = Num y, maxRowHeight = Num h \<rparr>"
    and boxes: "\<forall>q \<in> set (city_boxes (snd rs)). box_ok q"
    and pl: "\<forall>po \<in> set (packages (snd rs)). placed po"
    unfolding region_ok_def city_ok_def by blast
  let ?L = "calculatePackageLayout (pwm_pkg pw)"
  from layout_numeric [OF assms(2)] obtain mw td where L:
    "pl_width ?L = Num mw" "pl_depth ?L = Num td" by blast
  define wrap where "wrap = (0 < i \<and> jsgt (jsadd (jssub (packageX (fst rs)) (Num sx)) (pl_width ?L)) mrw)"
  define X where "X = (if wrap then sx else x)"
  define Y where "Y = (if wrap then y + (h + 0) else y)"
  have po: "placePackage (Num sx) mrw i rs pw
      = (\<lparr> packageX = Num (X + (mw + 0)), packageY = Num Y,
            maxRowHeight = Num (max (if wrap then 0 else h) td) \<rparr>,
         (snd rs)\<lparr> buildings := buildings (snd rs)
                       @ p_buildings (makePackageObj (pwm_pkg pw) ?L (Num X) (Num Y)),
                   packages := packages (snd rs) @ [makePackageObj (pwm_pkg pw) ?L (Num X) (Num Y)] \<rparr>)"
    by (simp add: placePackage_def Let_def rv L wrap_def X_def Y_def)
  have new: "placed (makePackageObj (pwm_pkg pw) ?L (Num X) (Num Y))"
    unfolding placed_def using assms(2) by blast
  show ?thesis
    unfolding po region_ok_def city_ok_def
    using boxes pl new makePackageObj_boxes_ok [OF assms(2), of X Y]
    by (auto simp: city_boxes_def)
qed

lemma placePackages_ok:
  assumes "region_ok rs" "\<forall>pw \<in> set pws. classes_ok (pwm_pkg pw)"
  shows "region_ok (placePackages (Num sx) mrw i rs pws)"
  using assms
  by (induction pws arbitrary: i rs) (simp_all add: placePackage_ok)

lemma layoutPackagesInRegion_ok:
  assumes "city_ok st" "\<forall>pw \<in> set pws. classes_ok (pwm_pkg pw)"
  shows "city_ok (layoutPackagesInRegion st pws (Num sx) (Num sy) mrw)"
proof -
  have "region_ok (\<lparr> packageX = Num sx, packageY = Num sy, maxRowHeight = Num 0 \<rparr>, st)"
    using assms(1) by (simp add: region_ok_def)
  from placePackages_ok [OF this assms(2), of sx mrw 0] show ?thesis
    by (simp add: layoutPackagesInRegion_def region_ok_def)
qed

lemma processData_city_ok:
  assumes "\<forall>p \<in> set (data_packages d). classes_ok p"
  shows "city_ok (processData e st d)"
proof -
  define pws where "pws = js_sort (\<lambda>a b. jssub (pwm_mass b) (pwm_mass a))
              (map (\<lambda>p. \<lparr> pwm_pkg = p, pwm_mass = calculatePackageMass p \<rparr>) (data_packages d))"
  define st0 where "st0 = st\<lparr> buildings := [], packages := [] \<rparr>"
  have pws_ok: "\<forall>pw \<in> set pws. classes_ok (pwm_pkg pw)"
    using assms by (auto simp: pws_def set_js_sort)
  have sub: "\<forall>pw \<in> set (slice a b pws). classes_ok (pwm_pkg pw)"
    "\<forall>pw \<in> set (slice_from a pws). classes_ok (pwm_pkg pw)" for a b
    using pws_ok by (auto simp: slice_def slice_from_def dest: in_set_takeD in_set_dropD)
  have e0: "city_ok st0"
    by (simp add: st0_def city_ok_def city_boxes_def)
  have grid: "city_ok (layoutPackagesGrid st0 pws)"
    unfolding layoutPackagesGrid_def Let_def
    by (rule layoutPackagesInRegion_ok [OF e0 pws_ok])
  have quad: "city_ok (layoutPackagesQuadrant st0 pws)"
    unfolding layoutPackagesQuadrant_def Let_def
    by (intro layoutPackagesInRegion_ok e0 sub)
  have same: "city_ok (calculateViewTransform (calculateGitNormalization e s1 d)) = city_ok s1" for s1
    by (simp add: city_ok_def city_boxes_def calculateViewTransform_city calculateGitNormalization_city)
  show ?thesis
    using grid quad
    by (simp add: processData_def Let_def same pws_def [symmetric] st0_def [symmetric])
qed

subsection \<open>The scenario of two classes\<close>

lemma ceil_sqrt_1: "ceil_sqrt (Suc 0) = 1"
  by (simp add: ceil_sqrt_def)

lemma ceil_quarter_1: "ceil_quarter (Suc 0) = 1"
proof -
  have "\<lceil>(1::real) / 4\<rceil> = 1" by (simp add: ceiling_eq_iff)
  then show ?thesis by (simp add: ceil_quarter_def)
qed

lemma scenario_sorted:
  "js_sort (\<lambda>a b. jssub (toNumber (linesOfCode b)) (toNumber (linesOfCode a))) (pkg_classes scenario_pkg)
     = pkg_classes scenario_pkg"
  by (simp add: js_sort_def scenario_pkg_def jssub_def jsgt_def)

lemma scenario_layout_classes:
  "map pos_class (pl_positions (calculatePackageLayout scenario_pkg)) = pkg_classes scenario_pkg"
  using positions_placeClasses [of "min 6 (ceil_sqrt (length (pkg_classes scenario_pkg)))" 0 initVars
      "pkg_classes scenario_pkg"]
  by (simp add: calculatePackageLayout_def Let_def scenario_sorted initVars_def)

lemma makeBuilding_height:
  "b_height (makeBuilding p x y pos)
     = jsmax CONFIG_minBuildingHeight (jsmul (toNumber (linesOfCode (pos_class pos))) CONFIG_locToHeightScale)"
  "className (makeBuilding p x y pos) = cls_name (pos_class pos)"
  "b_gitMetadata (makeBuilding p x y pos) = cls_gitMetadata (pos_class pos)"
  "b_color (makeBuilding p x y pos) = CONFIG_buildingBaseColor"
  by (simp_all add: makeBuilding_def Let_def)

lemma scenario_buildings_view:
  "map cls_view (p_buildings (makePackageObj scenario_pkg (calculatePackageLayout scenario_pkg) x y))
     = [(''X'', Num 120, None, CONFIG_buildingBaseColor), (''Y'', Num 68, None, CONFIG_buildingBaseColor)]"
proof -
  let ?f = "\<lambda>c. (cls_name c, jsmax CONFIG_minBuildingHeight (jsmul (toNumber (linesOfCode c)) CONFIG_locToHeightScale),
                   cls_gitMetadata c, CONFIG_buildingBaseColor)"
  have "map cls_view (p_buildings (makePackageObj scenario_pkg (calculatePackageLayout scenario_pkg) x y))
      = map ?f (map pos_class (pl_positions (calculatePackageLayout scenario_pkg)))"
    by (simp add: makePackageObj_def cls_view_def makeBuilding_height comp_def)
  also have "\<dots> = map ?f (pkg_classes scenario_pkg)"
    by (simp only: scenario_layout_classes)
  also have "\<dots> = [(''X'', Num 120, None, CONFIG_buildingBaseColor), (''Y'', Num 68, None, CONFIG_buildingBaseColor)]"
    by (simp add: scenario_pkg_def)
  finally show ?thesis .
qed

lemma scenario_region:
  "map cls_view (buildings (layoutPackagesInRegion st [\<lparr> pwm_pkg = scenario_pkg, pwm_mass = m \<rparr>] sx sy mw))
     = map cls_view (buildings st) @ [(''X'', Num 120, None, CONFIG_buildingBaseColor), (''Y'', Num 68, None, CONFIG_buildingBaseColor)]"
  by (simp add: layoutPackagesInRegion_def placePackage_def Let_def scenario_buildings_view)

lemma region_empty: "layoutPackagesInRegion st [] sx sy mw = st"
  by (simp add: layoutPackagesInRegion_def)

lemma scenario_processData:
  "map cls_view (buildings (processData e st scenario_data))
     = [(''X'', Num 120, None, CONFIG_buildingBaseColor), (''Y'', Num 68, None, CONFIG_buildingBaseColor)]"
  by (simp add: processData_def Let_def scenario_data_def js_sort_def
      calculateViewTransform_city calculateGitNormalization_city
      layoutPackagesGrid_def layoutPackagesQuadrant_def ceil_sqrt_1 ceil_quarter_1 slice_def slice_from_def
      region_empty scenario_region)

lemma fills_without_metadata:
  assumes "b_gitMetadata b = None" "b_color b = CONFIG_buildingBaseColor"
  shows "drawBuilding_fills e st False False b = base_fills"
  using assms
  by (simp add: drawBuilding_fills_def buildingShades_def buildingBaseColor_def base_fills_def
      lighten_def darken_def parseInt16_def substr_def hexDigit_def Let_def split: option.splits)

lemma base_fills_hue:
  "fill_hue_saturation (sh_right base_fills) = Some (210, 2100 / 73)"
  "fill_hue_saturation (sh_top base_fills) = Some (210, 2500 / 87)"
  "fill_hue_saturation (sh_left base_fills) = Some (6060 / 29, 2900 / 101)"
  by (simp_all add: base_fills_def rgb_hue_saturation_def parseInt16_def substr_def hexDigit_def Let_def)

lemma scenario_two_buildings:
  obtains b1 b2 where "buildings (processData e st scenario_data) = [b1, b2]"
    "className b1 = ''X''" "b_height b1 = Num 120" "b_gitMetadata b1 = None" "b_color b1 = CONFIG_buildingBaseColor"
    "className b2 = ''Y''" "b_height b2 = Num 68" "b_gitMetadata b2 = None" "b_color b2 = CONFIG_buildingBaseColor"
proof -
  from scenario_processData [of e st]
  obtain b1 b2 where "buildings (processData e st scenario_data) = [b1, b2]"
    "cls_view b1 = (''X'', Num 120, None, CONFIG_buildingBaseColor)"
    "cls_view b2 = (''Y'', Num 68, None, CONFIG_buildingBaseColor)"
    by (auto simp: map_eq_Cons_conv)
  then show ?thesis
    using that [of b1 b2] by (simp add: cls_view_def)
qed

text \<open>
  C6, as the code has it: for the dataset with one package "a.b" of the classes X (150
  lines) and Y (85 lines) without git metadata, from any state, \<open>processData\<close> produces
  exactly two buildings, of heights 120 and 68. \<open>drawBuilding\<close> does not ask the colour
  manager for a building without metadata: it fills the faces from the base colour
  \<open>#34495e\<close>, whose hue is 210 and whose saturation is about 29 percent. Hue 200 and
  saturation 70 are what \<open>getColorForBuilding\<close> returns when it is given no metadata.
\<close>

theorem scenario_heights_and_colours:
  "map (\<lambda>b. (className b, b_height b)) (buildings (processData e st scenario_data))
     = [(''X'', Num 120), (''Y'', Num 68)]
   \<and> map (drawBuilding_fills e' (processData e st scenario_data) False False)
        (buildings (processData e st scenario_data)) = [base_fills, base_fills]
   \<and> map fill_hue_saturation [sh_top base_fills, sh_right base_fills, sh_left base_fills]
       = [Some (210, 2500 / 87), Some (210, 2100 / 73), Some (6060 / 29, 2900 / 101)]
   \<and> hue (getColorForBuilding e' m None opts) = Num 200
   \<and> saturation (getColorForBuilding e' m None opts) = Num 70"
proof -
  obtain b1 b2 where b: "buildings (processData e st scenario_data) = [b1, b2]"
    "className b1 = ''X''" "b_height b1 = Num 120" "b_gitMetadata b1 = None" "b_color b1 = CONFIG_buildingBaseColor"
    "className b2 = ''Y''" "b_height b2 = Num 68" "b_gitMetadata b2 = None" "b_color b2 = CONFIG_buildingBaseColor"
    by (rule scenario_two_buildings)
  show ?thesis
    using b by (simp add: fills_without_metadata base_fills_hue getColorForBuilding_def Let_def)
qed

theorem scenario_heights_and_colours_witness:
  "map (\<lambda>b. (className b, b_height b)) (buildings (processData env0 (initialState 800 600) scenario_data))
     = [(''X'', Num 120), (''Y'', Num 68)]
   \<and> map (drawBuilding_fills env0 (processData env0 (initialState 800 600) scenario_data) False False)
        (buildings (processData env0 (initialState 800 600) scenario_data)) = [base_fills, base_fills]"
  using scenario_heights_and_colours [of env0 "initialState 800 600" env0]
  by simp

text \<open>
  Hue 200 and saturation 70 fail on the code: the right face of the first building of the scenario is filled
  with a colour of hue 210 and saturation 2100/73, not hue 200 and saturation 70.
\<close>

theorem scenario_colour_counterexample:
  "fill_hue_saturation (sh_right (drawBuilding_fills env0
       (processData env0 (initialState 800 600) scenario_data) False False
       (buildings (processData env0 (initialState 800 600) scenario_data) ! 0)))
     = Some (210, 2100 / 73)
   \<and> fill_hue_saturation (sh_right (drawBuilding_fills env0
       (processData env0 (initialState 800 600) scenario_data) False False
       (buildings (processData env0 (initialState 800 600) scenario_data) ! 0)))
     \<noteq> Some (200, 70)"
proof -
  obtain b1 b2 where b: "buildings (processData env0 (initialState 800 600) scenario_data) = [b1, b2]"
    "b_gitMetadata b1 = None" "b_color b1 = CONFIG_buildingBaseColor"
    by (rule scenario_two_buildings)
  show ?thesis
    using b by (simp add: fills_without_metadata base_fills_hue)
qed

text \<open>
  The city of one platform used with the view fit is what \<open>processData\<close> lays out for a
  dataset of one package without classes.
\<close>

lemma one_platform_laid_out:
  "packages (processData e (initialState 800 600)
       \<lparr> data_packages = [\<lparr> pkg_name = ''a.b'', pkg_classes = [] \<rparr>] \<rparr>)
     = packages one_platform
   \<and> buildings (processData e (initialState 800 600)
       \<lparr> data_packages = [\<lparr> pkg_name = ''a.b'', pkg_classes = [] \<rparr>] \<rparr>)
     = buildings one_platform"
  by (simp add: processData_def Let_def js_sort_def initialState_def one_platform_def
      calculateViewTransform_city calculateGitNormalization_city
      layoutPackagesQuadrant_def ceil_sqrt_1 ceil_quarter_1 slice_def slice_from_def
      region_empty layoutPackagesInRegion_def placePackage_def makePackageObj_def
      calculatePackageLayout_def initVars_def ceil_sqrt_def)

subsection \<open>Loading a file without a packages array\<close>

text \<open>
  When the text of the file parses to a value other than \<open>null\<close> whose \<open>packages\<close> property
  is missing or is not an array, the handler returns with the status text
  "Error: Invalid data format: missing packages array" (after the cross mark) and leaves the
  loaded data, the buildings, the packages, the colour manager and the camera unchanged.
\<close>

lemma missing_packages_rejected:
  assumes "JSON_parse g result = Inr data"
    and "read_packages g data = Inr pk"
    and "pk = None \<or> (\<exists>v. pk = Some v \<and> \<not> Array_isArray v)"
  shows "reader_onload g e st fileName result
           = Some (st\<lparr> fileStatus_textContent :=
                         [CHR 0xE2, CHR 0x9C, CHR 0x97]
                           @ '' Error: Invalid data format: missing packages array'',
                       fileStatus_color := ''#e74c3c'' \<rparr>)
       \<and> (\<exists>st'. reader_onload g e st fileName result = Some st'
              \<and> projectData st' = projectData st \<and> buildings st' = buildings st
              \<and> packages st' = packages st \<and> gitColorManager st' = gitColorManager st
              \<and> cfg_camera st' = cfg_camera st
              \<and> cfg_gitNormalization st' = cfg_gitNormalization st)"
  using assms by (auto simp: reader_onload_def report_error_def)

lemma missing_packages_rejected_example:
  "reader_onload engine0 env0 (initialState 800 600) ''data.json'' ''{}''
     = Some ((initialState 800 600)\<lparr> fileStatus_textContent :=
                         [CHR 0xE2, CHR 0x9C, CHR 0x97]
                           @ '' Error: Invalid data format: missing packages array'',
                       fileStatus_color := ''#e74c3c'' \<rparr>)"
proof -
  have a: "JSON_parse engine0 ''{}'' = Inr (JObject [])"
    by (simp add: engine0_def)
  have b: "read_packages engine0 (JObject []) = Inr None"
    by simp
  have c: "(None :: json option) = None \<or> (\<exists>v. None = Some v \<and> \<not> Array_isArray v)"
    by simp
  from missing_packages_rejected [OF a b c] show ?thesis by blast
qed

text \<open>
  The value \<open>null\<close> has no \<open>packages\<close> either, but reading a property of \<open>null\<close> throws before
  the check is made: whatever the engine and the state, the status shows the message of the
  engine's \<open>TypeError\<close>, and the rest of the state is unchanged.
\<close>

lemma null_data_reports_type_error:
  assumes "JSON_parse g result = Inr JNull"
  shows "reader_onload g e st fileName result
           = Some (st\<lparr> fileStatus_textContent :=
                         [CHR 0xE2, CHR 0x9C, CHR 0x97] @ '' Error: '' @ nullReadMessage g,
                       fileStatus_color := ''#e74c3c'' \<rparr>)"
  using assms by (simp add: reader_onload_def report_error_def)

text \<open>
  C9, at a file whose text is \<open>null\<close>: loading fails and the state is unchanged, but the
  status text is "Error: Cannot read properties of null" (the message of the engine), not
  "Error: Invalid data format: missing packages array".
\<close>

theorem null_file_error_message:
  "reader_onload engine0 env0 (initialState 800 600) ''data.json'' ''null''
     = Some ((initialState 800 600)\<lparr> fileStatus_textContent :=
                         [CHR 0xE2, CHR 0x9C, CHR 0x97] @ '' Error: Cannot read properties of null'',
                       fileStatus_color := ''#e74c3c'' \<rparr>)
   \<and> reader_onload engine0 env0 (initialState 800 600) ''data.json'' ''null''
     \<noteq> Some ((initialState 800 600)\<lparr> fileStatus_textContent :=
                         [CHR 0xE2, CHR 0x9C, CHR 0x97]
                           @ '' Error: Invalid data format: missing packages array'',
                       fileStatus_color := ''#e74c3c'' \<rparr>)"
  by (simp add: reader_onload_def report_error_def engine0_def initialState_def)

theorem null_file_error_message_witness:
  "reader_onload engine0 env0 (initialState 800 600) ''data.json'' ''null''
     = Some ((initialState 800 600)\<lparr> fileStatus_textContent :=
                         [CHR 0xE2, CHR 0x9C, CHR 0x97] @ '' Error: Cannot read properties of null'',
                       fileStatus_color := ''#e74c3c'' \<rparr>)"
  using null_file_error_message by blast

subsection \<open>The frequency label\<close>

text \<open>
  C7: \<open>getFrequencyLabel\<close> returns a label for every non-negative integer commit count:
  "No changes" for 0, "Single change" for 1, "Low activity" from 2 up to 4,
  "Moderate activity" from 5 up to 14, "High activity" from 15 up to 49 and
  "Very high activity" from 50 on.
\<close>

theorem getFrequencyLabel_boundaries:
  "getFrequencyLabel (Num (real n)) =
     (if n = 0 then ''No changes''
      else if n = 1 then ''Single change''
      else if n < 5 then ''Low activity''
      else if n < 15 then ''Moderate activity''
      else if n < 50 then ''High activity''
      else ''Very high activity'')"
  by (simp add: getFrequencyLabel_def)

theorem getFrequencyLabel_boundaries_witness:
  "getFrequencyLabel (Num (real 0)) = ''No changes''
   \<and> getFrequencyLabel (Num (real 1)) = ''Single change''
   \<and> getFrequencyLabel (Num (real 4)) = ''Low activity''
   \<and> getFrequencyLabel (Num (real 5)) = ''Moderate activity''
   \<and> getFrequencyLabel (Num (real 14)) = ''Moderate activity''
   \<and> getFrequencyLabel (Num (real 15)) = ''High activity''
   \<and> getFrequencyLabel (Num (real 49)) = ''High activity''
   \<and> getFrequencyLabel (Num (real 50)) = ''Very high activity''"
  using getFrequencyLabel_boundaries [of 0] getFrequencyLabel_boundaries [of 1]
    getFrequencyLabel_boundaries [of 4] getFrequencyLabel_boundaries [of 5]
    getFrequencyLabel_boundaries [of 14] getFrequencyLabel_boundaries [of 15]
    getFrequencyLabel_boundaries [of 49] getFrequencyLabel_boundaries [of 50]
  by simp

end
